theory Spec2Isabelle
  imports Main "HOL-Library.Multiset"
begin

section \<open>Long Term Archive workers: Picker, Locator and RucioStager\<close>

text \<open>
  A shallow embedding of \<^verbatim>\<open>lta/picker.py\<close>, \<^verbatim>\<open>lta/locator.py\<close> and
  \<^verbatim>\<open>lta/rucio_stager.py\<close>. The workers are sequential programs whose only effects are
  REST requests to the LTA DB and the File Catalog and, in the RucioStager, one file move.
  Every effect is appended to a trace, and every call that can raise returns a sum whose
  left injection is the exception.
\<close>

subsection \<open>Values, exceptions and entities\<close>

text \<open>JSON documents as they are sent in request bodies and URL parameters. A Python
  dict is an association list in insertion order.\<close>

datatype jval =
    JNull
  | JBool bool
  | JInt int
  | JStr string
  | JList "jval list"
  | JObj "(string \<times> jval) list"

text \<open>Exceptions. \<open>Failure m\<close> is any exception raised by the REST client or the operating
  system, with \<open>m\<close> the text \<^verbatim>\<open>f"{e}"\<close> gives it.\<close>

datatype exn = KeyError string | IndexError | Failure string

fun str_exn :: "exn \<Rightarrow> string" where
  "str_exn (KeyError k) = [CHR 0x27] @ k @ [CHR 0x27]"
| "str_exn IndexError = ''list index out of range''"
| "str_exn (Failure m) = m"

text \<open>The entities of the wire contract. \<^verbatim>\<open>TransferRequestType\<close> and \<^verbatim>\<open>BundleType\<close>
  are declared in \<^verbatim>\<open>lta_types\<close>; the fields are the keys the workers read. The documents
  the LTA DB and the File Catalog return are taken to have the shape the wire contract
  gives them: a key that the contract always supplies is a field, and reading it cannot
  raise; a key that may be missing is an \<open>option\<close> or sits in a dict, and reading it
  can.\<close>

record transfer_request =
  tr_uuid :: string
  tr_source :: string
  tr_dest :: string
  tr_path :: string

record lta_bundle =
  b_uuid :: string
  b_size :: int
  b_bundle_path :: string

text \<open>A location of a File Catalog record. The key \<^verbatim>\<open>archive\<close> may be absent, and when
  present may hold any value.\<close>

record location =
  loc_site :: string
  loc_path :: string
  loc_archive :: "jval option"

text \<open>A full File Catalog record. The sub-object \<^verbatim>\<open>lta\<close> is optional application-private
  metadata, a dict with whatever keys its writer put there.\<close>

record catalog_record =
  cr_checksum :: jval
  cr_file_size :: int
  cr_logical_name :: string
  cr_meta_modify_date :: string
  cr_uuid :: string
  cr_locations :: "location list"
  cr_lta :: "(string \<times> jval) list option"

subsection \<open>Effects\<close>

datatype client = LTA | FC

text \<open>\<open>Request c method path params body\<close> is \<^verbatim>\<open>c.request(method, url, body)\<close> where the
  url is \<open>path\<close> followed by the query parameters \<open>params\<close> in the order they are written;
  \<open>Move src dst\<close> is \<^verbatim>\<open>shutil.move(src, dst)\<close>.\<close>

datatype event =
    Request client string string "(string \<times> jval) list" "jval option"
  | Move string string

type_synonym trace = "event list"

text \<open>A computation takes the trace so far and returns its result or the exception it
  raised, with the extended trace.\<close>

type_synonym 'a io = "trace \<Rightarrow> (exn + 'a) \<times> trace"

definition io_return :: "'a \<Rightarrow> 'a io" where
  "io_return x t = (Inr x, t)"

definition io_raise :: "exn \<Rightarrow> 'a io" where
  "io_raise e t = (Inl e, t)"

definition io_bind :: "'a io \<Rightarrow> ('a \<Rightarrow> 'b io) \<Rightarrow> 'b io" where
  "io_bind m f t = (case m t of (Inl e, t') \<Rightarrow> (Inl e, t') | (Inr x, t') \<Rightarrow> f x t')"

text \<open>The world outside the worker. Each field answers the request that is the last event
  of the trace it is given (or reads the clock or the file system at that moment), so an
  answer may depend on everything the worker did before.\<close>

record env =
  fc_page :: "trace \<Rightarrow> exn + string list"
  fc_file :: "trace \<Rightarrow> exn + catalog_record"
  lta_pop_transfer_request :: "trace \<Rightarrow> exn + transfer_request option"
  lta_pop_bundle :: "trace \<Rightarrow> exn + lta_bundle option"
  lta_bulk_create :: "trace \<Rightarrow> exn + string list"
  lta_patch :: "trace \<Rightarrow> exn option"
  now :: "trace \<Rightarrow> string"
  os_walk :: "trace \<Rightarrow> string \<Rightarrow> (string \<times> string list \<times> string list) list"
  os_path_getsize :: "trace \<Rightarrow> string \<Rightarrow> exn + int"
  shutil_move :: "trace \<Rightarrow> exn option"

text \<open>Issue a request: log it, then let the world answer.\<close>

definition request :: "(trace \<Rightarrow> exn + 'a) \<Rightarrow> event \<Rightarrow> 'a io" where
  "request answer ev t = (answer (t @ [ev]), t @ [ev])"

definition perform :: "(trace \<Rightarrow> exn option) \<Rightarrow> event \<Rightarrow> unit io" where
  "perform answer ev t =
     ((case answer (t @ [ev]) of Some e \<Rightarrow> Inl e | None \<Rightarrow> Inr ()), t @ [ev])"

subsection \<open>The component base class\<close>

text \<open>The attributes of \<^verbatim>\<open>Component\<close> the workers read. \<open>name\<close> and \<open>instance_uuid\<close>
  make the claimant identifier \<^verbatim>\<open>f"{self.name}-{self.instance_uuid}"\<close>.\<close>

record component =
  name :: string
  instance_uuid :: string
  source_site :: string
  run_once_and_die :: bool

definition claimant :: "'a component_scheme \<Rightarrow> string" where
  "claimant self = name self @ ''-'' @ instance_uuid self"

definition pop_body :: "'a component_scheme \<Rightarrow> jval" where
  "pop_body self = JObj [(''claimant'', JStr (claimant self))]"

subsection \<open>Paths and strings\<close>

text \<open>\<^verbatim>\<open>s.split(c)[0]\<close>: the part of \<open>s\<close> before the first \<open>c\<close>, all of \<open>s\<close> when there
  is none.\<close>

definition split_first :: "char \<Rightarrow> string \<Rightarrow> string" where
  "split_first c s = takeWhile (\<lambda>x. x \<noteq> c) s"

text \<open>\<^verbatim>\<open>os.path.basename(p)\<close>: what follows the last slash.\<close>

definition os_path_basename :: "string \<Rightarrow> string" where
  "os_path_basename p = rev (takeWhile (\<lambda>x. x \<noteq> CHR ''/'') (rev p))"

text \<open>\<^verbatim>\<open>os.path.join(a, b)\<close> of posixpath, for two components.\<close>

definition os_path_join :: "string \<Rightarrow> string \<Rightarrow> string" where
  "os_path_join a b =
     (if b \<noteq> [] \<and> hd b = CHR ''/'' then b
      else if a = [] \<or> last a = CHR ''/'' then a @ b
      else a @ ''/'' @ b)"

subsection \<open>RucioStager\<close>

record rucio_stager = component +
  bundler_outbox_path :: string
  dest_quota :: int
  dest_site :: string
  rucio_inbox_path :: string

text \<open>\<^verbatim>\<open>_enumerate_path\<close>: every file under the path, joined with its directory.\<close>

definition enumerate_path :: "env \<Rightarrow> trace \<Rightarrow> string \<Rightarrow> string list" where
  "enumerate_path world t path =
     concat (map (\<lambda>(root, dirs, files). map (os_path_join root) files) (os_walk world t path))"

text \<open>The loop of \<^verbatim>\<open>_get_files_and_size\<close> that adds the sizes up;
  \<^verbatim>\<open>os.path.getsize\<close> raises when a file cannot be read.\<close>

fun add_sizes :: "env \<Rightarrow> trace \<Rightarrow> int \<Rightarrow> string list \<Rightarrow> exn + int" where
  "add_sizes world t size_acc [] = Inr size_acc"
| "add_sizes world t size_acc (disk_file # rest) =
     (case os_path_getsize world t disk_file of
        Inl e \<Rightarrow> Inl e
      | Inr n \<Rightarrow> add_sizes world t (size_acc + n) rest)"

definition get_files_and_size :: "env \<Rightarrow> string \<Rightarrow> (string list \<times> int) io" where
  "get_files_and_size world path t =
     (let disk_files = enumerate_path world t path in
      case add_sizes world t 0 disk_files of
        Inl e \<Rightarrow> (Inl e, t)
      | Inr sz \<Rightarrow> (Inr (disk_files, sz), t))"

definition bundle_url :: "lta_bundle \<Rightarrow> string" where
  "bundle_url b = ''/Bundles/'' @ b_uuid b"

definition quarantine_body :: "'a component_scheme \<Rightarrow> string \<Rightarrow> string \<Rightarrow> jval" where
  "quarantine_body self reason right_now =
     JObj [(''status'', JStr ''quarantined''),
           (''reason'', JStr (''BY:'' @ name self @ ''-'' @ instance_uuid self @ '' REASON:'' @ reason)),
           (''work_priority_timestamp'', JStr right_now)]"

text \<open>\<^verbatim>\<open>_quarantine_bundle\<close>: the PATCH is inside \<^verbatim>\<open>try\<close>, and \<^verbatim>\<open>except Exception\<close>
  only logs.\<close>

definition quarantine_bundle :: "env \<Rightarrow> rucio_stager \<Rightarrow> lta_bundle \<Rightarrow> string \<Rightarrow> unit io" where
  "quarantine_bundle world self b reason t =
     (let right_now = now world t;
          patch_body = quarantine_body self reason right_now
      in case perform (lta_patch world) (Request LTA ''PATCH'' (bundle_url b) [] (Some patch_body)) t of
           (Inl e, t') \<Rightarrow> (Inr (), t')
         | (Inr u, t') \<Rightarrow> (Inr (), t'))"

definition unclaim_body :: "string \<Rightarrow> jval" where
  "unclaim_body right_now =
     JObj [(''claimed'', JBool False),
           (''update_timestamp'', JStr right_now),
           (''work_priority_timestamp'', JStr right_now)]"

text \<open>\<^verbatim>\<open>_unclaim_bundle\<close>.\<close>

definition unclaim_bundle :: "env \<Rightarrow> rucio_stager \<Rightarrow> lta_bundle \<Rightarrow> bool io" where
  "unclaim_bundle world self b t =
     (let right_now = now world t;
          patch_body = unclaim_body right_now
      in io_bind (perform (lta_patch world) (Request LTA ''PATCH'' (bundle_url b) [] (Some patch_body)))
           (\<lambda>u. io_return True) t)"

definition staged_body :: "string \<Rightarrow> string \<Rightarrow> jval" where
  "staged_body dst_path right_now =
     JObj [(''bundle_path'', JStr dst_path),
           (''claimed'', JBool False),
           (''status'', JStr ''staged''),
           (''reason'', JStr ''''),
           (''update_timestamp'', JStr right_now)]"

text \<open>\<^verbatim>\<open>_stage_bundle\<close>.\<close>

definition stage_bundle :: "env \<Rightarrow> rucio_stager \<Rightarrow> lta_bundle \<Rightarrow> bool io" where
  "stage_bundle world self b =
     io_bind (get_files_and_size world (rucio_inbox_path self)) (\<lambda>measured.
       let rucio_size = snd measured;
           bundle_size = b_size b;
           total_size = rucio_size + bundle_size
       in if total_size > dest_quota self then
            io_bind (unclaim_bundle world self b) (\<lambda>u. io_return False)
          else
            let bundle_name = os_path_basename (b_bundle_path b);
                src_path = os_path_join (bundler_outbox_path self) bundle_name;
                dst_path = os_path_join (rucio_inbox_path self) bundle_name
            in io_bind (perform (shutil_move world) (Move src_path dst_path)) (\<lambda>u.
                 (\<lambda>t. io_bind
                    (perform (lta_patch world)
                       (Request LTA ''PATCH'' (bundle_url b) [] (Some (staged_body dst_path (now world t)))))
                    (\<lambda>u. io_return True) t)))"

definition stager_pop :: "rucio_stager \<Rightarrow> event" where
  "stager_pop self =
     Request LTA ''POST'' ''/Bundles/actions/pop''
       [(''dest'', JStr (dest_site self)), (''status'', JStr ''created'')] (Some (pop_body self))"

text \<open>\<^verbatim>\<open>RucioStager._do_work_claim\<close>.\<close>

definition stager_do_work_claim :: "env \<Rightarrow> rucio_stager \<Rightarrow> bool io" where
  "stager_do_work_claim world self =
     io_bind (request (lta_pop_bundle world) (stager_pop self)) (\<lambda>response.
       case response of
         None \<Rightarrow> io_return False
       | Some b \<Rightarrow> (\<lambda>t.
           case stage_bundle world self b t of
             (Inl e, t') \<Rightarrow>
               (case quarantine_bundle world self b (str_exn e) t' of (r, t'') \<Rightarrow> (Inl e, t''))
           | (Inr staged, t') \<Rightarrow> (Inr False, t')))"

text \<open>\<^verbatim>\<open>RucioStager._do_work\<close>: the drain loop, entered with \<^verbatim>\<open>work_claimed = True\<close>.\<close>

partial_function (option) stager_do_work :: "env \<Rightarrow> rucio_stager \<Rightarrow> trace \<Rightarrow> ((exn + unit) \<times> trace) option" where
  "stager_do_work world self t =
     (case stager_do_work_claim world self t of
        (Inl e, t') \<Rightarrow> Some (Inl e, t')
      | (Inr work_claimed, t') \<Rightarrow>
          if work_claimed \<and> \<not> run_once_and_die self then stager_do_work world self t'
          else Some (Inr (), t'))"

subsection \<open>What Picker and Locator share\<close>

text \<open>\<^verbatim>\<open>d[k]\<close> on a dict.\<close>

definition getitem :: "(string \<times> 'a) list \<Rightarrow> string \<Rightarrow> exn + 'a" where
  "getitem d k = (case map_of d k of None \<Rightarrow> Inl (KeyError k) | Some v \<Rightarrow> Inr v)"

definition io_lift :: "exn + 'a \<Rightarrow> 'a io" where
  "io_lift r t = (r, t)"

text \<open>Decimal numerals, as an f-string prints an \<^verbatim>\<open>int\<close>.\<close>

fun str_nat :: "nat \<Rightarrow> string" where
  "str_nat n =
     (if n < 10 then [''0123456789'' ! n]
      else str_nat (n div 10) @ [''0123456789'' ! (n mod 10)])"

declare str_nat.simps [simp del]

definition str_int :: "int \<Rightarrow> string" where
  "str_int i = (if i < 0 then ''-'' @ str_nat (nat (- i)) else str_nat (nat i))"

definition FILE_CATALOG_LIMIT :: nat where
  "FILE_CATALOG_LIMIT = 9000"

text \<open>\<^verbatim>\<open>as_bundle_record\<close> and \<^verbatim>\<open>as_lta_record\<close> pick the same five keys.\<close>

definition as_bundle_record :: "catalog_record \<Rightarrow> jval" where
  "as_bundle_record catalog_record =
     JObj [(''checksum'', cr_checksum catalog_record),
           (''file_size'', JInt (cr_file_size catalog_record)),
           (''logical_name'', JStr (cr_logical_name catalog_record)),
           (''meta_modify_date'', JStr (cr_meta_modify_date catalog_record)),
           (''uuid'', JStr (cr_uuid catalog_record))]"

definition as_lta_record :: "catalog_record \<Rightarrow> jval" where
  "as_lta_record catalog_record =
     JObj [(''checksum'', cr_checksum catalog_record),
           (''file_size'', JInt (cr_file_size catalog_record)),
           (''logical_name'', JStr (cr_logical_name catalog_record)),
           (''meta_modify_date'', JStr (cr_meta_modify_date catalog_record)),
           (''uuid'', JStr (cr_uuid catalog_record))]"

text \<open>The two page requests of the file discovery. An entry \<^verbatim>\<open>{"uuid": u}\<close> of a
  returned page is represented by \<open>u\<close>.\<close>

definition first_page_request :: "jval \<Rightarrow> nat \<Rightarrow> event" where
  "first_page_request query_json page_start =
     Request FC ''GET'' ''/api/files''
       [(''query'', query_json), (''keys'', JStr ''uuid''),
        (''limit'', JInt (int FILE_CATALOG_LIMIT)), (''start'', JInt (int page_start))] None"

definition next_page_request :: "jval \<Rightarrow> nat \<Rightarrow> event" where
  "next_page_request query_json page_start =
     Request FC ''GET'' ''/api/files''
       [(''query'', query_json),
        (''limit'', JInt (int FILE_CATALOG_LIMIT)), (''start'', JInt (int page_start))] None"

text \<open>The \<^verbatim>\<open>while num_files == FILE_CATALOG_LIMIT\<close> loop. Nothing bounds the number of
  full pages a catalog may return, so the loop is a partial function.\<close>

partial_function (option) page_loop ::
  "env \<Rightarrow> jval \<Rightarrow> nat \<Rightarrow> nat \<Rightarrow> string list \<Rightarrow> trace \<Rightarrow> ((exn + string list) \<times> trace) option" where
  "page_loop world query_json page_start num_files catalog_files t =
     (if num_files = FILE_CATALOG_LIMIT then
        (case request (fc_page world) (next_page_request query_json (page_start + num_files)) t of
           (Inl e, t') \<Rightarrow> Some (Inl e, t')
         | (Inr files, t') \<Rightarrow>
             page_loop world query_json (page_start + num_files) (length files) (catalog_files @ files) t')
      else Some (Inr catalog_files, t))"

text \<open>The file discovery of \<^verbatim>\<open>_do_work_transfer_request\<close> (the same lines in
  \<^verbatim>\<open>picker.py\<close> and \<^verbatim>\<open>locator.py\<close>): the first request, then the loop.\<close>

definition query_file_catalog ::
  "env \<Rightarrow> jval \<Rightarrow> trace \<Rightarrow> ((exn + string list) \<times> trace) option" where
  "query_file_catalog world query_json t =
     (case request (fc_page world) (first_page_request query_json 0) t of
        (Inl e, t') \<Rightarrow> Some (Inl e, t')
      | (Inr files, t') \<Rightarrow> page_loop world query_json 0 (length files) ([] @ files) t')"

text \<open>The loop that fetches the full record of every uuid.\<close>

definition file_request :: "string \<Rightarrow> event" where
  "file_request file_uuid = Request FC ''GET'' (''/api/files/'' @ file_uuid) [] None"

fun fetch_records :: "env \<Rightarrow> string list \<Rightarrow> catalog_record list \<Rightarrow> catalog_record list io" where
  "fetch_records world [] catalog_records = io_return catalog_records"
| "fetch_records world (catalog_file # rest) catalog_records =
     io_bind (request (fc_file world) (file_request catalog_file))
       (\<lambda>catalog_record. fetch_records world rest (catalog_records @ [catalog_record]))"

text \<open>\<^verbatim>\<open>_create_bundle\<close>: one POST whose \<^verbatim>\<open>bundles\<close> list holds the bundle;
  \<^verbatim>\<open>result["bundles"][0]\<close> raises on an empty answer.\<close>

definition create_bundle :: "env \<Rightarrow> jval \<Rightarrow> string io" where
  "create_bundle world bundle_doc =
     io_bind
       (request (lta_bulk_create world)
          (Request LTA ''POST'' ''/Bundles/actions/bulk_create'' []
             (Some (JObj [(''bundles'', JList [bundle_doc])]))))
       (\<lambda>result. case result of [] \<Rightarrow> io_raise IndexError | new_uuid # others \<Rightarrow> io_return new_uuid)"

text \<open>\<^verbatim>\<open>_quarantine_transfer_request\<close>, the same in Picker and Locator.\<close>

definition transfer_request_url :: "transfer_request \<Rightarrow> string" where
  "transfer_request_url tr = ''/TransferRequests/'' @ tr_uuid tr"

definition quarantine_transfer_request ::
  "env \<Rightarrow> 'a component_scheme \<Rightarrow> transfer_request \<Rightarrow> string \<Rightarrow> unit io" where
  "quarantine_transfer_request world self tr reason t =
     (let right_now = now world t;
          patch_body = quarantine_body self reason right_now
      in case perform (lta_patch world)
                (Request LTA ''PATCH'' (transfer_request_url tr) [] (Some patch_body)) t of
           (Inl e, t') \<Rightarrow> (Inr (), t')
         | (Inr u, t') \<Rightarrow> (Inr (), t'))"

subsection \<open>Picker\<close>

record site =
  bundle_size :: int

record picker = component +
  sites :: "(string \<times> site) list"
  max_file_count :: int

text \<open>Modelled from the spec: the weight of a bin of \<^verbatim>\<open>to_constant_volume\<close> (package
  \<^verbatim>\<open>binpacking\<close>, imported by the Picker and not among the sources): the sum of the sizes
  of its items, the size being component 0 of an item.\<close>

fun weight_sum :: "(int \<times> 'a) list \<Rightarrow> int" where
  "weight_sum [] = 0"
| "weight_sum (item # items) = fst item + weight_sum items"

text \<open>Modelled from the spec: one step of \<^verbatim>\<open>to_constant_volume\<close>. The item is placed into
  the first bin that still has room; a new bin is opened only when no existing bin
  admits the item.\<close>

fun place :: "int \<Rightarrow> int \<times> 'a \<Rightarrow> (int \<times> 'a) list list \<Rightarrow> (int \<times> 'a) list list" where
  "place V_max item [] = [[item]]"
| "place V_max item (b # bins) =
     (if weight_sum b + fst item \<le> V_max then (b @ [item]) # bins
      else b # place V_max item bins)"

text \<open>Modelled from the spec: the loop of \<^verbatim>\<open>to_constant_volume\<close> over the sorted items.\<close>

fun place_all :: "int \<Rightarrow> (int \<times> 'a) list \<Rightarrow> (int \<times> 'a) list list \<Rightarrow> (int \<times> 'a) list list" where
  "place_all V_max [] bins = bins"
| "place_all V_max (item # items) bins = place_all V_max items (place V_max item bins)"

text \<open>Modelled from the spec: \<^verbatim>\<open>to_constant_volume(d, V_max, 0)\<close> of the \<^verbatim>\<open>binpacking\<close>
  package, which the Picker imports and which is not among the sources. The spec: items are
  sorted by size descending and placed greedily into the first bin that still has room; a
  new bin is opened only when no existing bin admits the item.\<close>

definition to_constant_volume :: "(int \<times> 'a) list \<Rightarrow> int \<Rightarrow> (int \<times> 'a) list list" where
  "to_constant_volume d V_max = place_all V_max (sort_key (\<lambda>item. - fst item) d) []"

definition picker_query :: "string \<Rightarrow> string \<Rightarrow> jval" where
  "picker_query source path =
     JObj [(''locations.site'', JObj [(''$eq'', JStr source)]),
           (''locations.path'', JObj [(''$regex'', JStr (''^'' @ path))]),
           (''logical_name'', JObj [(''$regex'', JStr (''^'' @ path))])]"

text \<open>The dict literal of the Picker's emission loop.\<close>

definition picker_bundle :: "transfer_request \<Rightarrow> (int \<times> catalog_record) list \<Rightarrow> jval" where
  "picker_bundle tr spec =
     JObj [(''type'', JStr ''Bundle''),
           (''status'', JStr ''specified''),
           (''reason'', JStr ''''),
           (''request'', JStr (tr_uuid tr)),
           (''source'', JStr (tr_source tr)),
           (''dest'', JStr (tr_dest tr)),
           (''path'', JStr (tr_path tr)),
           (''files'', JList (map (\<lambda>x. as_bundle_record (snd x)) spec))]"

fun picker_create_bundles :: "env \<Rightarrow> transfer_request \<Rightarrow> (int \<times> catalog_record) list list \<Rightarrow> unit io" where
  "picker_create_bundles world tr [] = io_return ()"
| "picker_create_bundles world tr (spec # rest) =
     io_bind (create_bundle world (picker_bundle tr spec))
       (\<lambda>new_uuid. picker_create_bundles world tr rest)"

text \<open>\<^verbatim>\<open>Picker._do_work_transfer_request\<close>. The first \<^verbatim>\<open>for spec in packing_spec\<close>
  loop returns at the first packing list that is too long, which is what \<open>find\<close> finds.\<close>

definition picker_do_work_transfer_request ::
  "env \<Rightarrow> picker \<Rightarrow> transfer_request \<Rightarrow> trace \<Rightarrow> ((exn + unit) \<times> trace) option" where
  "picker_do_work_transfer_request world self tr t =
     (let source = tr_source tr; dest = tr_dest tr; path = tr_path tr;
          query_json = picker_query source path
      in case query_file_catalog world query_json t of
           None \<Rightarrow> None
         | Some (Inl e, t1) \<Rightarrow> Some (Inl e, t1)
         | Some (Inr catalog_files, t1) \<Rightarrow> Some (
             if catalog_files = [] then
               quarantine_transfer_request world self tr
                 ''File Catalog returned zero files for the TransferRequest'' t1
             else
               io_bind (fetch_records world catalog_files []) (\<lambda>catalog_records.
                 let packing_list = map (\<lambda>catalog_record. (cr_file_size catalog_record, catalog_record)) catalog_records
                 in io_bind (io_lift (getitem (sites self) dest)) (\<lambda>dest_site_config.
                   let packing_spec = to_constant_volume packing_list (bundle_size dest_site_config)
                   in case find (\<lambda>spec. int (length spec) > max_file_count self) packing_spec of
                        Some spec \<Rightarrow>
                          quarantine_transfer_request world self tr
                            (''Bundle packing list contains '' @ str_int (int (length spec))
                               @ '' files; MAX_FILE_COUNT is configured at ''
                               @ str_int (max_file_count self))
                      | None \<Rightarrow> picker_create_bundles world tr packing_spec)) t1))"

definition picker_pop :: "picker \<Rightarrow> event" where
  "picker_pop self =
     Request LTA ''POST'' ''/TransferRequests/actions/pop''
       [(''source'', JStr (source_site self))] (Some (pop_body self))"

text \<open>\<^verbatim>\<open>Picker._do_work_claim\<close>: on an exception, quarantine and return \<^verbatim>\<open>False\<close>.\<close>

definition picker_do_work_claim :: "env \<Rightarrow> picker \<Rightarrow> trace \<Rightarrow> ((exn + bool) \<times> trace) option" where
  "picker_do_work_claim world self t =
     (case request (lta_pop_transfer_request world) (picker_pop self) t of
        (Inl e, t1) \<Rightarrow> Some (Inl e, t1)
      | (Inr None, t1) \<Rightarrow> Some (Inr False, t1)
      | (Inr (Some tr), t1) \<Rightarrow>
          (case picker_do_work_transfer_request world self tr t1 of
             None \<Rightarrow> None
           | Some (Inl e, t2) \<Rightarrow>
               (case quarantine_transfer_request world self tr (str_exn e) t2 of
                  (r, t3) \<Rightarrow> Some (Inr False, t3))
           | Some (Inr u, t2) \<Rightarrow> Some (Inr True, t2)))"

subsection \<open>Locator\<close>

record locator = component +
  locator_dest_site :: string

definition locator_query :: "string \<Rightarrow> string \<Rightarrow> jval" where
  "locator_query source path =
     JObj [(''locations.archive'', JObj [(''$eq'', JBool True)]),
           (''locations.site'', JObj [(''$eq'', JStr source)]),
           (''logical_name'', JObj [(''$regex'', JStr (''^'' @ path))])]"

text \<open>\<^verbatim>\<open>_get_unique_archives\<close>, first loop: the inner \<^verbatim>\<open>for location in record["locations"]\<close>
  and the outer \<^verbatim>\<open>for record in records\<close>, appending to \<^verbatim>\<open>bundle_paths\<close>.\<close>

fun collect_locations :: "string \<Rightarrow> location list \<Rightarrow> string list \<Rightarrow> string list" where
  "collect_locations source [] bundle_paths = bundle_paths"
| "collect_locations source (location # rest) bundle_paths =
     (case loc_archive location of
        None \<Rightarrow> collect_locations source rest bundle_paths
      | Some archive \<Rightarrow>
          if archive = JBool True \<and> loc_site location = source
          then collect_locations source rest (bundle_paths @ [loc_path location])
          else collect_locations source rest bundle_paths)"

fun collect_records :: "string \<Rightarrow> catalog_record list \<Rightarrow> string list \<Rightarrow> string list" where
  "collect_records source [] bundle_paths = bundle_paths"
| "collect_records source (record # rest) bundle_paths =
     collect_records source rest (collect_locations source (cr_locations record) bundle_paths)"

text \<open>Second loop: \<^verbatim>\<open>for bundle_path in bundle_paths\<close>, appending to \<^verbatim>\<open>bundle_uuids\<close>.\<close>

fun collect_uuids :: "string list \<Rightarrow> string list \<Rightarrow> string list" where
  "collect_uuids [] bundle_uuids = bundle_uuids"
| "collect_uuids (bundle_path # rest) bundle_uuids =
     (let keep_path = split_first (CHR '':'') bundle_path;
          uuid = split_first (CHR ''.'') (os_path_basename keep_path)
      in if uuid \<notin> set bundle_uuids then collect_uuids rest (bundle_uuids @ [uuid])
         else collect_uuids rest bundle_uuids)"

definition get_unique_archives :: "catalog_record list \<Rightarrow> string \<Rightarrow> string list" where
  "get_unique_archives records source = collect_uuids (collect_records source records []) []"

text \<open>The dict literal of the Locator's emission loop. It is evaluated for one record at a
  time, inside the loop, and raises \<^verbatim>\<open>KeyError\<close> when the record has no \<^verbatim>\<open>lta\<close> or
  the \<^verbatim>\<open>lta\<close> lacks a key.\<close>

definition locator_bundle :: "transfer_request \<Rightarrow> catalog_record \<Rightarrow> exn + jval" where
  "locator_bundle tr bundle_record =
     (case cr_lta bundle_record of
        None \<Rightarrow> Inl (KeyError ''lta'')
      | Some lta \<Rightarrow>
          (case getitem lta ''bundle_path'' of
             Inl e \<Rightarrow> Inl e
           | Inr lta_bundle_path \<Rightarrow>
               (case getitem lta ''checksum'' of
                  Inl e \<Rightarrow> Inl e
                | Inr lta_checksum \<Rightarrow>
                    Inr (JObj [(''type'', JStr ''Bundle''),
                               (''status'', JStr ''located''),
                               (''claimed'', JBool False),
                               (''verified'', JBool False),
                               (''reason'', JStr ''''),
                               (''request'', JStr (tr_uuid tr)),
                               (''source'', JStr (tr_source tr)),
                               (''dest'', JStr (tr_dest tr)),
                               (''path'', JStr (tr_path tr)),
                               (''size'', JInt (cr_file_size bundle_record)),
                               (''bundle_path'', lta_bundle_path),
                               (''checksum'', lta_checksum),
                               (''files'', JList []),
                               (''catalog'', as_lta_record bundle_record)]))))"

fun locator_create_bundles :: "env \<Rightarrow> transfer_request \<Rightarrow> catalog_record list \<Rightarrow> unit io" where
  "locator_create_bundles world tr [] = io_return ()"
| "locator_create_bundles world tr (bundle_record # rest) =
     io_bind (io_lift (locator_bundle tr bundle_record)) (\<lambda>bundle_doc.
       io_bind (create_bundle world bundle_doc)
         (\<lambda>new_uuid. locator_create_bundles world tr rest))"

text \<open>\<^verbatim>\<open>Locator._do_work_transfer_request\<close>.\<close>

definition locator_do_work_transfer_request ::
  "env \<Rightarrow> locator \<Rightarrow> transfer_request \<Rightarrow> trace \<Rightarrow> ((exn + unit) \<times> trace) option" where
  "locator_do_work_transfer_request world self tr t =
     (let source = tr_source tr; dest = tr_dest tr; path = tr_path tr;
          query_json = locator_query source path
      in case query_file_catalog world query_json t of
           None \<Rightarrow> None
         | Some (Inl e, t1) \<Rightarrow> Some (Inl e, t1)
         | Some (Inr catalog_files, t1) \<Rightarrow> Some (
             if catalog_files = [] then
               quarantine_transfer_request world self tr
                 ''File Catalog returned zero files for the TransferRequest'' t1
             else
               io_bind (fetch_records world catalog_files []) (\<lambda>catalog_records.
                 let bundle_uuids = get_unique_archives catalog_records source
                 in io_bind (fetch_records world bundle_uuids []) (\<lambda>bundle_records.
                      locator_create_bundles world tr bundle_records)) t1))"

definition locator_pop :: "locator \<Rightarrow> event" where
  "locator_pop self =
     Request LTA ''POST'' ''/TransferRequests/actions/pop''
       [(''dest'', JStr (locator_dest_site self)), (''source'', JStr (source_site self))]
       (Some (pop_body self))"

text \<open>\<^verbatim>\<open>Locator._do_work_claim\<close>: on an exception, quarantine and raise it again.\<close>

definition locator_do_work_claim :: "env \<Rightarrow> locator \<Rightarrow> trace \<Rightarrow> ((exn + bool) \<times> trace) option" where
  "locator_do_work_claim world self t =
     (case request (lta_pop_transfer_request world) (locator_pop self) t of
        (Inl e, t1) \<Rightarrow> Some (Inl e, t1)
      | (Inr None, t1) \<Rightarrow> Some (Inr False, t1)
      | (Inr (Some tr), t1) \<Rightarrow>
          (case locator_do_work_transfer_request world self tr t1 of
             None \<Rightarrow> None
           | Some (Inl e, t2) \<Rightarrow>
               (case quarantine_transfer_request world self tr (str_exn e) t2 of
                  (r, t3) \<Rightarrow> Some (Inl e, t3))
           | Some (Inr u, t2) \<Rightarrow> Some (Inr True, t2)))"

subsection \<open>Reading a trace\<close>

text \<open>The bundles a request hands to \<^verbatim>\<open>/Bundles/actions/bulk_create\<close>: the elements of the
  \<^verbatim>\<open>bundles\<close> list of its body.\<close>

definition is_bulk_create :: "event \<Rightarrow> bool" where
  "is_bulk_create ev =
     (case ev of
        Request c m p ps bd \<Rightarrow> c = LTA \<and> m = ''POST'' \<and> p = ''/Bundles/actions/bulk_create''
      | Move src dst \<Rightarrow> False)"

definition posted_bundles :: "event \<Rightarrow> jval list" where
  "posted_bundles ev =
     (case ev of
        Request c m p ps bd \<Rightarrow>
          (if is_bulk_create ev then
             (case bd of
                Some (JObj kvs) \<Rightarrow> (case map_of kvs ''bundles'' of Some (JList bs) \<Rightarrow> bs | _ \<Rightarrow> [])
              | _ \<Rightarrow> [])
           else [])
      | Move src dst \<Rightarrow> [])"

definition emitted_bundles :: "trace \<Rightarrow> jval list" where
  "emitted_bundles t = concat (map posted_bundles t)"

text \<open>The per-uuid record fetches, the PATCH requests and the moves of a trace.\<close>

definition is_record_fetch :: "event \<Rightarrow> bool" where
  "is_record_fetch ev =
     (case ev of
        Request c m p ps bd \<Rightarrow> c = FC \<and> m = ''GET'' \<and> take 11 p = ''/api/files/''
      | Move src dst \<Rightarrow> False)"

definition is_patch :: "event \<Rightarrow> bool" where
  "is_patch ev = (case ev of Request c m p ps bd \<Rightarrow> m = ''PATCH'' | Move src dst \<Rightarrow> False)"

definition is_pop :: "event \<Rightarrow> bool" where
  "is_pop ev =
     (case ev of
        Request c m p ps bd \<Rightarrow> m = ''POST'' \<and> p = ''/Bundles/actions/pop''
      | Move src dst \<Rightarrow> False)"




definition keys_of :: "jval \<Rightarrow> string list" where
  "keys_of doc = (case doc of JObj kvs \<Rightarrow> map fst kvs | _ \<Rightarrow> [])"

subsection \<open>The shape of a quarantine reason\<close>

text \<open>The regular expression \<^verbatim>\<open>^BY:[^ ]+ REASON:.+\<close>, matched at the start of the string:
  \<^verbatim>\<open>BY:\<close>, then one or more characters that are not a space (the run ends at the first
  space, since a space must follow it), then \<^verbatim>\<open> REASON:\<close>, then at least one character
  that is not a newline.\<close>

fun strip_prefix :: "string \<Rightarrow> string \<Rightarrow> string option" where
  "strip_prefix [] s = Some s"
| "strip_prefix (p # ps) [] = None"
| "strip_prefix (p # ps) (c # cs) = (if p = c then strip_prefix ps cs else None)"

definition matches_reason_pattern :: "string \<Rightarrow> bool" where
  "matches_reason_pattern s =
     (case strip_prefix ''BY:'' s of
        None \<Rightarrow> False
      | Some r \<Rightarrow>
          takeWhile (\<lambda>c. c \<noteq> CHR '' '') r \<noteq> [] \<and>
          (case strip_prefix '' REASON:'' (dropWhile (\<lambda>c. c \<noteq> CHR '' '') r) of
             None \<Rightarrow> False
           | Some cause \<Rightarrow> cause \<noteq> [] \<and> hd cause \<noteq> CHR 0x0A))"

subsection \<open>The words of the spec for the Locator's uuid list\<close>





subsection \<open>Example configurations and worlds\<close>

definition example_stager :: rucio_stager where
  "example_stager =
     \<lparr>name = ''rucio_stager'', instance_uuid = ''5e7a'', source_site = ''WIPAC'',
      run_once_and_die = False, bundler_outbox_path = ''/data/outbox'', dest_quota = 1000,
      dest_site = ''NERSC'', rucio_inbox_path = ''/data/inbox''\<rparr>"

definition example_bundle :: lta_bundle where
  "example_bundle = \<lparr>b_uuid = ''b1'', b_size = 300, b_bundle_path = ''/data/work/b1.zip''\<rparr>"

definition example_record :: "string \<Rightarrow> catalog_record" where
  "example_record u =
     \<lparr>cr_checksum = JObj [(''sha512'', JStr ''c0ffee'')],
      cr_file_size = (if u = ''f1'' then 300 else if u = ''f2'' then 400 else 500),
      cr_logical_name = ''/data/exp/'' @ u,
      cr_meta_modify_date = ''2019-07-25'',
      cr_uuid = u,
      cr_locations =
        [\<lparr>loc_site = ''WIPAC'', loc_path = ''/data/exp/'' @ u, loc_archive = None\<rparr>,
         \<lparr>loc_site = ''NERSC'',
          loc_path = (if u = ''f3'' then ''/a/b/CAFEBABE5678.zip:inner-3''
                      else ''/a/b/DEADBEEF1234.zip:inner-'' @ u),
          loc_archive = Some (JBool True)\<rparr>],
      cr_lta = Some [(''bundle_path'', JStr (''/a/b/'' @ u @ ''.zip'')),
                     (''checksum'', JObj [(''sha512'', JStr ''c0ffee'')])]\<rparr>"

definition example_request :: transfer_request where
  "example_request =
     \<lparr>tr_uuid = ''tr1'', tr_source = ''WIPAC'', tr_dest = ''NERSC'', tr_path = ''/data/exp''\<rparr>"

definition example_restore :: transfer_request where
  "example_restore =
     \<lparr>tr_uuid = ''tr2'', tr_source = ''NERSC'', tr_dest = ''WIPAC'', tr_path = ''/data/exp''\<rparr>"

text \<open>A world where every request is answered: the catalog holds three files of 300, 400
  and 500 bytes, the Rucio inbox one file of 800 bytes.\<close>

definition example_world :: env where
  "example_world =
     \<lparr>fc_page = (\<lambda>t. Inr [''f1'', ''f2'', ''f3'']),
      fc_file = (\<lambda>t. case last t of
                        Request c m p ps bd \<Rightarrow> Inr (example_record (drop 11 p))
                      | Move src dst \<Rightarrow> Inl (Failure ''not a request'')),
      lta_pop_transfer_request = (\<lambda>t. Inr (Some example_request)),
      lta_pop_bundle = (\<lambda>t. Inr (Some example_bundle)),
      lta_bulk_create = (\<lambda>t. Inr [''new-bundle'']),
      lta_patch = (\<lambda>t. None),
      now = (\<lambda>t. ''2019-07-25T12:00:00''),
      os_walk = (\<lambda>t path. [(path, [], [''old.zip''])]),
      os_path_getsize = (\<lambda>t disk_file. Inr 800),
      shutil_move = (\<lambda>t. None)\<rparr>"

text \<open>The same world with a disk where the move fails.\<close>

definition broken_disk_world :: env where
  "broken_disk_world = example_world\<lparr>shutil_move := (\<lambda>t. Some (Failure ''No space left on device''))\<rparr>"

definition roomy_stager :: rucio_stager where
  "roomy_stager = example_stager\<lparr>dest_quota := 5000\<rparr>"

text \<open>The same world with nothing to stage.\<close>

definition idle_world :: env where
  "idle_world = example_world\<lparr>lta_pop_bundle := (\<lambda>t. Inr None)\<rparr>"

subsection \<open>Describing a file discovery\<close>

text \<open>The requests a discovery makes when the catalog returns the given pages: the first
  page is asked for at offset 0 with \<^verbatim>\<open>keys=uuid\<close>, every later one without it, at the
  offset of the page before plus the length of the page before.\<close>

fun later_requests :: "jval \<Rightarrow> nat \<Rightarrow> nat \<Rightarrow> string list list \<Rightarrow> event list" where
  "later_requests query_json page_start num_files [] = []"
| "later_requests query_json page_start num_files (p # ps) =
     next_page_request query_json (page_start + num_files)
       # later_requests query_json (page_start + num_files) (length p) ps"

fun page_requests :: "jval \<Rightarrow> string list list \<Rightarrow> event list" where
  "page_requests query_json [] = []"
| "page_requests query_json (p # ps) =
     first_page_request query_json 0 # later_requests query_json 0 (length p) ps"

text \<open>The world answers the requests, issued one after the other from trace \<open>t\<close>, with
  the pages.\<close>

fun answers :: "env \<Rightarrow> trace \<Rightarrow> event list \<Rightarrow> string list list \<Rightarrow> bool" where
  "answers world t [] [] = True"
| "answers world t (r # rs) (p # ps) =
     (fc_page world (t @ [r]) = Inr p \<and> answers world (t @ [r]) rs ps)"
| "answers world t [] (p # ps) = False"
| "answers world t (r # rs) [] = False"

text \<open>A catalog of more than one page: a full page at offset 0, then a page of one file.\<close>

definition two_page_world :: env where
  "two_page_world =
     example_world\<lparr>fc_page := (\<lambda>t. if length t = 1 then Inr (replicate FILE_CATALOG_LIMIT ''f1'')
                                     else Inr [''f2''])\<rparr>"

text \<open>The loop, entered after a page of \<open>num_files\<close> entries, goes through exactly the
  given pages and then stops.\<close>

fun stops_after :: "nat \<Rightarrow> string list list \<Rightarrow> bool" where
  "stops_after num_files [] = (num_files \<noteq> FILE_CATALOG_LIMIT)"
| "stops_after num_files (p # ps) = (num_files = FILE_CATALOG_LIMIT \<and> stops_after (length p) ps)"

text \<open>The page requests of a trace.\<close>

definition is_page_request :: "event \<Rightarrow> bool" where
  "is_page_request ev = (case ev of Request c m p ps bd \<Rightarrow> c = FC \<and> m = ''GET'' \<and> p = ''/api/files'' | Move s d \<Rightarrow> False)"

text \<open>The request \<^verbatim>\<open>_create_bundle\<close> sends for a bundle document.\<close>

definition bulk_create_request :: "jval \<Rightarrow> event" where
  "bulk_create_request bundle_doc =
     Request LTA ''POST'' ''/Bundles/actions/bulk_create'' []
       (Some (JObj [(''bundles'', JList [bundle_doc])]))"

text \<open>The quarantine PATCH of a TransferRequest, with the reason spelled out.\<close>

definition quarantine_request :: "'a component_scheme \<Rightarrow> transfer_request \<Rightarrow> string \<Rightarrow> string \<Rightarrow> event" where
  "quarantine_request self tr cause right_now =
     Request LTA ''PATCH'' (''/TransferRequests/'' @ tr_uuid tr) []
       (Some (JObj [(''status'', JStr ''quarantined''),
                    (''reason'', JStr (''BY:'' @ name self @ ''-'' @ instance_uuid self
                                         @ '' REASON:'' @ cause)),
                    (''work_priority_timestamp'', JStr right_now)]))"

text \<open>A Picker and a Locator, a Picker that allows two files in a bundle, and a world whose
  catalog finds nothing.\<close>

definition example_picker :: picker where
  "example_picker =
     \<lparr>name = ''picker'', instance_uuid = ''9c1b'', source_site = ''WIPAC'',
      run_once_and_die = False, sites = [(''NERSC'', \<lparr>bundle_size = 1000\<rparr>)],
      max_file_count = 25000\<rparr>"

definition strict_picker :: picker where
  "strict_picker = example_picker\<lparr>sites := [(''NERSC'', \<lparr>bundle_size = 10000\<rparr>)], max_file_count := 2\<rparr>"

definition example_locator :: locator where
  "example_locator =
     \<lparr>name = ''locator'', instance_uuid = ''4d2f'', source_site = ''NERSC'',
      run_once_and_die = False, locator_dest_site = ''WIPAC''\<rparr>"

definition empty_catalog_world :: env where
  "empty_catalog_world = example_world\<lparr>fc_page := (\<lambda>t. Inr [])\<rparr>"


text \<open>The bundle documents the Locator's emission loop builds, up to the first record whose
  dict literal raises.\<close>

fun bundle_docs :: "transfer_request \<Rightarrow> catalog_record list \<Rightarrow> jval list" where
  "bundle_docs tr [] = []"
| "bundle_docs tr (bundle_record # rest) =
     (case locator_bundle tr bundle_record of
        Inl e \<Rightarrow> []
      | Inr bundle_doc \<Rightarrow> bundle_doc # bundle_docs tr rest)"

text \<open>An event that, if it is a \<^verbatim>\<open>bulk_create\<close>, is the request for exactly one bundle.\<close>

definition one_bundle_at_most :: "event \<Rightarrow> bool" where
  "one_bundle_at_most ev =
     (is_bulk_create ev \<longrightarrow>
        (case posted_bundles ev of [bundle_doc] \<Rightarrow> ev = bulk_create_request bundle_doc | _ \<Rightarrow> False))"

text \<open>A world whose File Catalog raises an exception that has no message, as
  \<^verbatim>\<open>asyncio.TimeoutError()\<close> has none.\<close>

definition silent_failure_world :: env where
  "silent_failure_world = example_world\<lparr>fc_page := (\<lambda>t. Inl (Failure ''''))\<rparr>"

text \<open>A world whose LTA DB fails the first PATCH after the pop and answers the later ones.\<close>

definition flaky_db_world :: env where
  "flaky_db_world =
     example_world\<lparr>lta_patch := (\<lambda>t. if length t = 2 then Some (Failure ''db down'') else None)\<rparr>"




section \<open>Properties\<close>

subsection \<open>RucioStager\<close>

lemma get_files_and_size_trace: "snd (get_files_and_size world p t) = t"
  by (simp add: get_files_and_size_def Let_def split: sum.splits)

lemma get_files_and_size_eq:
  "fst (get_files_and_size world p t) = r \<Longrightarrow> get_files_and_size world p t = (r, t)"
  using get_files_and_size_trace[of world p t] by (cases "get_files_and_size world p t") auto

lemma stage_over:
  assumes "fst (get_files_and_size world (rucio_inbox_path self) t) = Inr (fs, rucio_size)"
      and "rucio_size + b_size b > dest_quota self"
  shows "stage_bundle world self b t =
     ((case lta_patch world (t @ [Request LTA ''PATCH'' (bundle_url b) [] (Some (unclaim_body (now world t)))]) of
         Some e \<Rightarrow> Inl e | None \<Rightarrow> Inr False),
      t @ [Request LTA ''PATCH'' (bundle_url b) [] (Some (unclaim_body (now world t)))])"
  using get_files_and_size_eq[OF assms(1)] assms(2)
  by (simp add: stage_bundle_def io_bind_def unclaim_bundle_def perform_def io_return_def Let_def split: option.splits)

lemma stage_under:
  assumes "fst (get_files_and_size world (rucio_inbox_path self) t) = Inr (fs, rucio_size)"
      and "\<not> rucio_size + b_size b > dest_quota self"
  shows "stage_bundle world self b t =
     (let bundle_name = os_path_basename (b_bundle_path b);
          mv = Move (os_path_join (bundler_outbox_path self) bundle_name) (os_path_join (rucio_inbox_path self) bundle_name);
          pt = Request LTA ''PATCH'' (bundle_url b) []
                 (Some (staged_body (os_path_join (rucio_inbox_path self) bundle_name) (now world (t @ [mv]))))
      in case shutil_move world (t @ [mv]) of
           Some e \<Rightarrow> (Inl e, t @ [mv])
         | None \<Rightarrow> ((case lta_patch world (t @ [mv, pt]) of Some e \<Rightarrow> Inl e | None \<Rightarrow> Inr True), t @ [mv, pt]))"
  using get_files_and_size_eq[OF assms(1)] assms(2)
  by (simp add: stage_bundle_def io_bind_def perform_def io_return_def Let_def split: option.splits)

lemma stage_measure_fails:
  assumes "fst (get_files_and_size world (rucio_inbox_path self) t) = Inl e"
  shows "stage_bundle world self b t = (Inl e, t)"
  using get_files_and_size_eq[OF assms(1)]
  by (simp add: stage_bundle_def io_bind_def)

lemma quarantine_bundle_eq:
  "quarantine_bundle world self b reason t =
     (Inr (), t @ [Request LTA ''PATCH'' (bundle_url b) [] (Some (quarantine_body self reason (now world t)))])"
  by (simp add: quarantine_bundle_def perform_def Let_def split: option.splits)

lemma claim_popped:
  assumes "lta_pop_bundle world (t0 @ [stager_pop self]) = Inr (Some b)"
  shows "stager_do_work_claim world self t0 =
     (case stage_bundle world self b (t0 @ [stager_pop self]) of
        (Inl e, t') \<Rightarrow> (Inl e, snd (quarantine_bundle world self b (str_exn e) t'))
      | (Inr staged, t') \<Rightarrow> (Inr False, t'))"
  using assms
  by (simp add: stager_do_work_claim_def io_bind_def request_def split: prod.splits sum.splits)

lemma stage_bundle_no_pop:
  "filter is_pop (snd (stage_bundle world self b t)) = filter is_pop t"
proof (cases "fst (get_files_and_size world (rucio_inbox_path self) t)")
  case (Inl e)
  then show ?thesis by (simp add: stage_measure_fails)
next
  case (Inr m)
  obtain fs rs where m: "m = (fs, rs)" by (cases m)
  show ?thesis
  proof (cases "rs + b_size b > dest_quota self")
    case True
    with Inr m show ?thesis by (simp add: stage_over is_pop_def)
  next
    case False
    with Inr m show ?thesis by (simp add: stage_under is_pop_def Let_def split: option.splits)
  qed
qed

lemma claim_never_true: "fst (stager_do_work_claim world self t0) \<noteq> Inr True"
  by (auto simp: stager_do_work_claim_def io_bind_def request_def io_return_def split: sum.splits option.splits prod.splits)

lemma claim_pops:
  "filter is_pop (snd (stager_do_work_claim world self t0)) = filter is_pop t0 @ [stager_pop self]"
proof -
  have p: "is_pop (stager_pop self)" by (simp add: is_pop_def stager_pop_def)
  show ?thesis
  proof (cases "lta_pop_bundle world (t0 @ [stager_pop self])")
    case (Inl e)
    then show ?thesis using p by (simp add: stager_do_work_claim_def io_bind_def request_def)
  next
    case (Inr resp)
    show ?thesis
    proof (cases resp)
      case None
      with Inr show ?thesis using p by (simp add: stager_do_work_claim_def io_bind_def request_def io_return_def)
    next
      case (Some b)
      have "filter is_pop (snd (stage_bundle world self b (t0 @ [stager_pop self]))) = filter is_pop t0 @ [stager_pop self]"
        using p by (simp add: stage_bundle_no_pop)
      with Inr Some show ?thesis
        by (auto simp: claim_popped quarantine_bundle_eq is_pop_def split: prod.splits sum.splits)
    qed
  qed
qed

lemma do_work_once:
  "stager_do_work world self t0 =
     Some (case stager_do_work_claim world self t0 of
             (Inl e, t') \<Rightarrow> (Inl e, t') | (Inr w, t') \<Rightarrow> (Inr (), t'))"
proof -
  obtain r t' where c: "stager_do_work_claim world self t0 = (r, t')" by (cases "stager_do_work_claim world self t0")
  with claim_never_true[of world self t0] have "r \<noteq> Inr True" by simp
  with c show ?thesis
    by (subst stager_do_work.simps) (auto split: sum.splits)
qed

lemma example_measure:
  "get_files_and_size example_world p t = (Inr ([os_path_join p ''old.zip''], 800), t)"
  by (simp add: get_files_and_size_def enumerate_path_def example_world_def)

text \<open>
  C3, as amended. When the measured size of the Rucio inbox plus the size of the claimed
  bundle exceeds \<open>dest_quota\<close>, staging the bundle does one thing: it sends one PATCH of the
  bundle whose body has exactly the keys \<open>claimed\<close> (false), \<open>update_timestamp\<close> and
  \<open>work_priority_timestamp\<close>; nothing is moved. When that PATCH is answered, the claim
  handler sends nothing else (no quarantine, no \<open>status\<close>) and returns false. When that
  PATCH raises, the claim handler sends the quarantine PATCH of the bundle and raises the
  same exception.
\<close>

theorem stager_over_quota_unclaims:
  assumes "lta_pop_bundle world (t0 @ [stager_pop self]) = Inr (Some b)"
      and "fst (get_files_and_size world (rucio_inbox_path self) (t0 @ [stager_pop self]))
             = Inr (disk_files, rucio_size)"
      and "rucio_size + b_size b > dest_quota self"
  shows "let t = t0 @ [stager_pop self];
             right_now = now world t;
             body = JObj [(''claimed'', JBool False),
                          (''update_timestamp'', JStr right_now),
                          (''work_priority_timestamp'', JStr right_now)];
             unclaim = Request LTA ''PATCH'' (''/Bundles/'' @ b_uuid b) [] (Some body);
             quarantine = (\<lambda>e. Request LTA ''PATCH'' (''/Bundles/'' @ b_uuid b) []
                        (Some (JObj [(''status'', JStr ''quarantined''),
                                     (''reason'', JStr (''BY:'' @ name self @ ''-'' @ instance_uuid self
                                                          @ '' REASON:'' @ str_exn e)),
                                     (''work_priority_timestamp'', JStr (now world (t @ [unclaim])))])))
         in snd (stage_bundle world self b t) = t @ [unclaim]
            \<and> keys_of body = [''claimed'', ''update_timestamp'', ''work_priority_timestamp'']
            \<and> (lta_patch world (t @ [unclaim]) = None \<longrightarrow>
                 stager_do_work_claim world self t0 = (Inr False, t @ [unclaim]))
            \<and> (\<forall>e. lta_patch world (t @ [unclaim]) = Some e \<longrightarrow>
                 stager_do_work_claim world self t0 = (Inl e, t @ [unclaim, quarantine e]))"
  using assms(3)
  by (simp add: Let_def claim_popped[OF assms(1)] stage_over[OF assms(2)] bundle_url_def
        unclaim_body_def keys_of_def quarantine_bundle_eq quarantine_body_def)

lemma flaky_db_world_simps:
  "lta_pop_bundle flaky_db_world t = Inr (Some example_bundle)"
  "now flaky_db_world t = ''2019-07-25T12:00:00''"
  "lta_patch flaky_db_world [a, b] = Some (Failure ''db down'')"
  "fst (get_files_and_size flaky_db_world p t) = Inr ([os_path_join p ''old.zip''], 800)"
  by (simp_all add: flaky_db_world_def example_world_def get_files_and_size_def enumerate_path_def)

theorem stager_over_quota_unclaims_witness:
  "stager_do_work_claim example_world example_stager [] =
     (Inr False,
      [stager_pop example_stager,
       Request LTA ''PATCH'' ''/Bundles/b1'' []
         (Some (JObj [(''claimed'', JBool False),
                      (''update_timestamp'', JStr ''2019-07-25T12:00:00''),
                      (''work_priority_timestamp'', JStr ''2019-07-25T12:00:00'')]))])
   \<and> fst (stager_do_work_claim flaky_db_world example_stager []) = Inl (Failure ''db down'')"
proof -
  have p: "lta_pop_bundle example_world ([] @ [stager_pop example_stager]) = Inr (Some example_bundle)"
    by (simp add: example_world_def)
  have m: "fst (get_files_and_size example_world (rucio_inbox_path example_stager)
                  ([] @ [stager_pop example_stager]))
             = Inr ([os_path_join (rucio_inbox_path example_stager) ''old.zip''], 800)"
    by (simp add: example_measure)
  have q: "800 + b_size example_bundle > dest_quota example_stager"
    by (simp add: example_bundle_def example_stager_def)
  have a: "lta_patch example_world t = None" for t
    by (simp add: example_world_def)
  have n: "now example_world t = ''2019-07-25T12:00:00''" for t
    by (simp add: example_world_def)
  have u: "b_uuid example_bundle = ''b1''" by (simp add: example_bundle_def)
  have p': "lta_pop_bundle flaky_db_world ([] @ [stager_pop example_stager]) = Inr (Some example_bundle)"
    by (rule flaky_db_world_simps)
  have m': "fst (get_files_and_size flaky_db_world (rucio_inbox_path example_stager)
                  ([] @ [stager_pop example_stager]))
             = Inr ([os_path_join (rucio_inbox_path example_stager) ''old.zip''], 800)"
    by (rule flaky_db_world_simps)
  have 1: "stager_do_work_claim example_world example_stager [] =
     (Inr False,
      [stager_pop example_stager,
       Request LTA ''PATCH'' ''/Bundles/b1'' []
         (Some (JObj [(''claimed'', JBool False),
                      (''update_timestamp'', JStr ''2019-07-25T12:00:00''),
                      (''work_priority_timestamp'', JStr ''2019-07-25T12:00:00'')]))])"
    using stager_over_quota_unclaims[OF p m q] by (simp add: Let_def a n u)
  have 2: "fst (stager_do_work_claim flaky_db_world example_stager []) = Inl (Failure ''db down'')"
    using stager_over_quota_unclaims[OF p' m' q] by (simp add: Let_def flaky_db_world_simps u)
  from 1 2 show ?thesis by simp
qed

text \<open>
  C3 as stated fails: over quota, with an unclaim PATCH that raises, the claim handler sends
  a second PATCH that sets \<open>status\<close> to \<open>quarantined\<close>, and raises instead of returning
  false.
\<close>

theorem stager_over_quota_counterexample:
  "fst (get_files_and_size flaky_db_world (rucio_inbox_path example_stager) [stager_pop example_stager])
     = Inr ([''/data/inbox/old.zip''], 800)
   \<and> 800 + b_size example_bundle > dest_quota example_stager
   \<and> stager_do_work_claim flaky_db_world example_stager [] =
     (Inl (Failure ''db down''),
      [stager_pop example_stager,
       Request LTA ''PATCH'' ''/Bundles/b1'' []
         (Some (JObj [(''claimed'', JBool False),
                      (''update_timestamp'', JStr ''2019-07-25T12:00:00''),
                      (''work_priority_timestamp'', JStr ''2019-07-25T12:00:00'')])),
       Request LTA ''PATCH'' ''/Bundles/b1'' []
         (Some (JObj [(''status'', JStr ''quarantined''),
                      (''reason'', JStr ''BY:rucio_stager-5e7a REASON:db down''),
                      (''work_priority_timestamp'', JStr ''2019-07-25T12:00:00'')]))])"
proof -
  have m: "fst (get_files_and_size flaky_db_world (rucio_inbox_path example_stager)
                  ([] @ [stager_pop example_stager]))
             = Inr ([os_path_join (rucio_inbox_path example_stager) ''old.zip''], 800)"
    by (rule flaky_db_world_simps)
  have q: "800 + b_size example_bundle > dest_quota example_stager"
    by (simp add: example_bundle_def example_stager_def)
  have p: "lta_pop_bundle flaky_db_world ([] @ [stager_pop example_stager]) = Inr (Some example_bundle)"
    by (rule flaky_db_world_simps)
  have c: "b_uuid example_bundle = ''b1''" "name example_stager = ''rucio_stager''"
          "instance_uuid example_stager = ''5e7a''" "rucio_inbox_path example_stager = ''/data/inbox''"
          "os_path_join ''/data/inbox'' ''old.zip'' = ''/data/inbox/old.zip''"
    by (simp_all add: example_bundle_def example_stager_def os_path_join_def)
  have st: "stage_bundle flaky_db_world example_stager example_bundle [stager_pop example_stager] =
     (Inl (Failure ''db down''),
      [stager_pop example_stager,
       Request LTA ''PATCH'' ''/Bundles/b1'' []
         (Some (JObj [(''claimed'', JBool False),
                      (''update_timestamp'', JStr ''2019-07-25T12:00:00''),
                      (''work_priority_timestamp'', JStr ''2019-07-25T12:00:00'')]))])"
    using stage_over[OF m q]
    by (simp add: flaky_db_world_simps bundle_url_def unclaim_body_def c)
  have run: "stager_do_work_claim flaky_db_world example_stager [] =
     (Inl (Failure ''db down''),
      [stager_pop example_stager,
       Request LTA ''PATCH'' ''/Bundles/b1'' []
         (Some (JObj [(''claimed'', JBool False),
                      (''update_timestamp'', JStr ''2019-07-25T12:00:00''),
                      (''work_priority_timestamp'', JStr ''2019-07-25T12:00:00'')])),
       Request LTA ''PATCH'' ''/Bundles/b1'' []
         (Some (JObj [(''status'', JStr ''quarantined''),
                      (''reason'', JStr ''BY:rucio_stager-5e7a REASON:db down''),
                      (''work_priority_timestamp'', JStr ''2019-07-25T12:00:00'')]))])"
    using claim_popped[OF p]
    by (simp add: st flaky_db_world_simps quarantine_bundle_eq quarantine_body_def bundle_url_def c)
  from m q run show ?thesis by (simp add: c)
qed

text \<open>
  C6. When the quota test passes, staging moves
  \<open>os_path_join bundler_outbox_path name\<close> to \<open>os_path_join rucio_inbox_path name\<close>, where
  \<open>name\<close> is the basename of the bundle's \<open>bundle_path\<close>; when the move succeeds, exactly
  one PATCH of the bundle follows, with \<open>bundle_path\<close> the destination, \<open>claimed\<close> false,
  \<open>status\<close> staged, \<open>reason\<close> empty and \<open>update_timestamp\<close> the time after the move.
  When the move raises, the claim handler sends the quarantine PATCH and raises the same
  exception.
\<close>

theorem stager_moves_then_patches:
  assumes "lta_pop_bundle world (t0 @ [stager_pop self]) = Inr (Some b)"
      and "fst (get_files_and_size world (rucio_inbox_path self) (t0 @ [stager_pop self]))
             = Inr (disk_files, rucio_size)"
      and "\<not> rucio_size + b_size b > dest_quota self"
  shows "let t = t0 @ [stager_pop self];
             bundle_name = os_path_basename (b_bundle_path b);
             src_path = os_path_join (bundler_outbox_path self) bundle_name;
             dst_path = os_path_join (rucio_inbox_path self) bundle_name;
             staged = Request LTA ''PATCH'' (''/Bundles/'' @ b_uuid b) []
                        (Some (JObj [(''bundle_path'', JStr dst_path),
                                     (''claimed'', JBool False),
                                     (''status'', JStr ''staged''),
                                     (''reason'', JStr ''''),
                                     (''update_timestamp'', JStr (now world (t @ [Move src_path dst_path])))]));
             quarantine = (\<lambda>e. Request LTA ''PATCH'' (''/Bundles/'' @ b_uuid b) []
                        (Some (JObj [(''status'', JStr ''quarantined''),
                                     (''reason'', JStr (''BY:'' @ name self @ ''-'' @ instance_uuid self
                                                          @ '' REASON:'' @ str_exn e)),
                                     (''work_priority_timestamp'', JStr (now world (t @ [Move src_path dst_path])))])))
         in (shutil_move world (t @ [Move src_path dst_path]) = None \<longrightarrow>
               snd (stage_bundle world self b t) = t @ [Move src_path dst_path, staged]
               \<and> (lta_patch world (t @ [Move src_path dst_path, staged]) = None \<longrightarrow>
                    stager_do_work_claim world self t0 = (Inr False, t @ [Move src_path dst_path, staged])))
            \<and> (\<forall>e. shutil_move world (t @ [Move src_path dst_path]) = Some e \<longrightarrow>
                 stager_do_work_claim world self t0 = (Inl e, t @ [Move src_path dst_path, quarantine e]))"
  using assms(3)
  by (simp add: Let_def claim_popped[OF assms(1)] stage_under[OF assms(2)] bundle_url_def
        staged_body_def quarantine_bundle_eq quarantine_body_def)

theorem stager_moves_then_patches_witness:
  "stager_do_work_claim example_world roomy_stager [] =
     (Inr False,
      [stager_pop roomy_stager,
       Move ''/data/outbox/b1.zip'' ''/data/inbox/b1.zip'',
       Request LTA ''PATCH'' ''/Bundles/b1'' []
         (Some (JObj [(''bundle_path'', JStr ''/data/inbox/b1.zip''),
                      (''claimed'', JBool False),
                      (''status'', JStr ''staged''),
                      (''reason'', JStr ''''),
                      (''update_timestamp'', JStr ''2019-07-25T12:00:00'')]))])
   \<and> stager_do_work_claim broken_disk_world roomy_stager [] =
     (Inl (Failure ''No space left on device''),
      [stager_pop roomy_stager,
       Move ''/data/outbox/b1.zip'' ''/data/inbox/b1.zip'',
       Request LTA ''PATCH'' ''/Bundles/b1'' []
         (Some (JObj [(''status'', JStr ''quarantined''),
                      (''reason'', JStr ''BY:rucio_stager-5e7a REASON:No space left on device''),
                      (''work_priority_timestamp'', JStr ''2019-07-25T12:00:00'')]))])"
proof -
  have p: "lta_pop_bundle example_world ([] @ [stager_pop roomy_stager]) = Inr (Some example_bundle)"
    by (simp add: example_world_def)
  have p': "lta_pop_bundle broken_disk_world ([] @ [stager_pop roomy_stager]) = Inr (Some example_bundle)"
    by (simp add: example_world_def broken_disk_world_def)
  have m: "fst (get_files_and_size example_world (rucio_inbox_path roomy_stager)
                  ([] @ [stager_pop roomy_stager]))
             = Inr ([os_path_join (rucio_inbox_path roomy_stager) ''old.zip''], 800)"
    by (simp add: example_measure)
  have m': "fst (get_files_and_size broken_disk_world (rucio_inbox_path roomy_stager)
                  ([] @ [stager_pop roomy_stager]))
             = Inr ([os_path_join (rucio_inbox_path roomy_stager) ''old.zip''], 800)"
    by (simp add: get_files_and_size_def enumerate_path_def example_world_def broken_disk_world_def)
  have q: "\<not> 800 + b_size example_bundle > dest_quota roomy_stager"
    by (simp add: example_bundle_def example_stager_def roomy_stager_def)
  have w: "lta_patch example_world t = None" "shutil_move example_world t = None"
          "now example_world t = ''2019-07-25T12:00:00''"
          "shutil_move broken_disk_world t = Some (Failure ''No space left on device'')"
          "now broken_disk_world t = ''2019-07-25T12:00:00''" for t
    by (simp_all add: example_world_def broken_disk_world_def)
  have c: "b_uuid example_bundle = ''b1''"
          "os_path_basename (b_bundle_path example_bundle) = ''b1.zip''"
          "bundler_outbox_path roomy_stager = ''/data/outbox''"
          "rucio_inbox_path roomy_stager = ''/data/inbox''"
          "name roomy_stager = ''rucio_stager''" "instance_uuid roomy_stager = ''5e7a''"
    by (simp_all add: example_bundle_def os_path_basename_def roomy_stager_def example_stager_def)
  have j: "os_path_join ''/data/outbox'' ''b1.zip'' = ''/data/outbox/b1.zip''"
          "os_path_join ''/data/inbox'' ''b1.zip'' = ''/data/inbox/b1.zip''"
    by (simp_all add: os_path_join_def)
  show ?thesis
    using stager_moves_then_patches[OF p m q] stager_moves_then_patches[OF p' m' q]
    by (simp add: Let_def w c j)
qed

text \<open>
  C9. The RucioStager's claim handler never returns true: whenever it returns, with a bundle
  staged, a bundle unclaimed for quota or no bundle offered, it returns false. So the drain
  loop calls it exactly once, and a call issues exactly one pop request. When staging raises,
  the handler sends the quarantine PATCH and raises the same exception instead of returning.
\<close>

theorem stager_claim_returns_false:
  "fst (stager_do_work_claim world self t0) \<noteq> Inr True
   \<and> stager_do_work world self t0 =
       Some (case stager_do_work_claim world self t0 of
               (Inl e, t') \<Rightarrow> (Inl e, t') | (Inr work_claimed, t') \<Rightarrow> (Inr (), t'))
   \<and> filter is_pop (snd (stager_do_work_claim world self t0)) = filter is_pop t0 @ [stager_pop self]
   \<and> (lta_pop_bundle world (t0 @ [stager_pop self]) = Inr None \<longrightarrow>
        stager_do_work_claim world self t0 = (Inr False, t0 @ [stager_pop self]))
   \<and> (\<forall>b e t'. lta_pop_bundle world (t0 @ [stager_pop self]) = Inr (Some b)
          \<and> stage_bundle world self b (t0 @ [stager_pop self]) = (Inl e, t') \<longrightarrow>
        stager_do_work_claim world self t0 =
          (Inl e, t' @ [Request LTA ''PATCH'' (''/Bundles/'' @ b_uuid b) []
                          (Some (JObj [(''status'', JStr ''quarantined''),
                                       (''reason'', JStr (''BY:'' @ name self @ ''-'' @ instance_uuid self
                                                            @ '' REASON:'' @ str_exn e)),
                                       (''work_priority_timestamp'', JStr (now world t'))]))]))
   \<and> (\<forall>b staged t'. lta_pop_bundle world (t0 @ [stager_pop self]) = Inr (Some b)
          \<and> stage_bundle world self b (t0 @ [stager_pop self]) = (Inr staged, t') \<longrightarrow>
        stager_do_work_claim world self t0 = (Inr False, t'))"
proof -
  have "lta_pop_bundle world (t0 @ [stager_pop self]) = Inr None \<Longrightarrow>
        stager_do_work_claim world self t0 = (Inr False, t0 @ [stager_pop self])"
    by (simp add: stager_do_work_claim_def io_bind_def request_def io_return_def)
  then show ?thesis
    by (simp add: claim_never_true do_work_once claim_pops claim_popped quarantine_bundle_eq
          quarantine_body_def bundle_url_def)
qed

theorem stager_claim_returns_false_witness:
  "stager_do_work_claim idle_world example_stager [] = (Inr False, [stager_pop example_stager])
   \<and> stager_do_work_claim broken_disk_world roomy_stager [] =
       (Inl (Failure ''No space left on device''),
        [stager_pop roomy_stager,
         Move ''/data/outbox/b1.zip'' ''/data/inbox/b1.zip'',
         Request LTA ''PATCH'' ''/Bundles/b1'' []
           (Some (JObj [(''status'', JStr ''quarantined''),
                        (''reason'', JStr ''BY:rucio_stager-5e7a REASON:No space left on device''),
                        (''work_priority_timestamp'', JStr ''2019-07-25T12:00:00'')]))])
   \<and> stager_do_work_claim example_world example_stager [] =
       (Inr False,
        [stager_pop example_stager,
         Request LTA ''PATCH'' ''/Bundles/b1'' [] (Some (unclaim_body ''2019-07-25T12:00:00''))])
   \<and> stager_do_work example_world example_stager [] =
       Some (Inr (),
        [stager_pop example_stager,
         Request LTA ''PATCH'' ''/Bundles/b1'' [] (Some (unclaim_body ''2019-07-25T12:00:00''))])"
proof -
  have idle: "lta_pop_bundle idle_world ([] @ [stager_pop example_stager]) = Inr None"
    by (simp add: idle_world_def)
  have c: "b_uuid example_bundle = ''b1''"
          "os_path_basename (b_bundle_path example_bundle) = ''b1.zip''"
          "bundler_outbox_path roomy_stager = ''/data/outbox''"
          "rucio_inbox_path roomy_stager = ''/data/inbox''"
          "name roomy_stager = ''rucio_stager''" "instance_uuid roomy_stager = ''5e7a''"
          "os_path_join ''/data/outbox'' ''b1.zip'' = ''/data/outbox/b1.zip''"
          "os_path_join ''/data/inbox'' ''b1.zip'' = ''/data/inbox/b1.zip''"
    by (simp_all add: example_bundle_def os_path_basename_def roomy_stager_def example_stager_def
          os_path_join_def)
  have w: "lta_patch example_world t = None"
          "now example_world t = ''2019-07-25T12:00:00''"
          "shutil_move broken_disk_world t = Some (Failure ''No space left on device'')"
          "now broken_disk_world t = ''2019-07-25T12:00:00''"
          "lta_pop_bundle example_world t = Inr (Some example_bundle)"
          "lta_pop_bundle broken_disk_world t = Inr (Some example_bundle)" for t
    by (simp_all add: example_world_def broken_disk_world_def)
  have m': "fst (get_files_and_size broken_disk_world (rucio_inbox_path roomy_stager) t)
             = Inr ([os_path_join (rucio_inbox_path roomy_stager) ''old.zip''], 800)" for t
    by (simp add: get_files_and_size_def enumerate_path_def example_world_def broken_disk_world_def)
  have q: "\<not> 800 + b_size example_bundle > dest_quota roomy_stager"
          "800 + b_size example_bundle > dest_quota example_stager"
    by (simp_all add: example_bundle_def example_stager_def roomy_stager_def)
  have broken: "stage_bundle broken_disk_world roomy_stager example_bundle ([] @ [stager_pop roomy_stager]) =
     (Inl (Failure ''No space left on device''),
      [stager_pop roomy_stager, Move ''/data/outbox/b1.zip'' ''/data/inbox/b1.zip''])"
    by (simp add: stage_under[OF m' q(1)] Let_def w c)
  have m: "fst (get_files_and_size example_world (rucio_inbox_path example_stager) t)
             = Inr ([os_path_join (rucio_inbox_path example_stager) ''old.zip''], 800)" for t
    by (simp add: example_measure)
  have over: "stage_bundle example_world example_stager example_bundle ([] @ [stager_pop example_stager]) =
     (Inr False, [stager_pop example_stager,
         Request LTA ''PATCH'' ''/Bundles/b1'' [] (Some (unclaim_body ''2019-07-25T12:00:00''))])"
    by (simp add: stage_over[OF m q(2)] w c bundle_url_def)
  have 1: "stager_do_work_claim idle_world example_stager [] = (Inr False, [stager_pop example_stager])"
    using stager_claim_returns_false[of idle_world example_stager "[]"] idle by simp
  have 2: "stager_do_work_claim broken_disk_world roomy_stager [] =
       (Inl (Failure ''No space left on device''),
        [stager_pop roomy_stager,
         Move ''/data/outbox/b1.zip'' ''/data/inbox/b1.zip'',
         Request LTA ''PATCH'' ''/Bundles/b1'' []
           (Some (JObj [(''status'', JStr ''quarantined''),
                        (''reason'', JStr ''BY:rucio_stager-5e7a REASON:No space left on device''),
                        (''work_priority_timestamp'', JStr ''2019-07-25T12:00:00'')]))])"
    using stager_claim_returns_false[of broken_disk_world roomy_stager "[]"] broken w(6)
    by (simp add: c w)
  have 3: "stager_do_work_claim example_world example_stager [] =
       (Inr False,
        [stager_pop example_stager,
         Request LTA ''PATCH'' ''/Bundles/b1'' [] (Some (unclaim_body ''2019-07-25T12:00:00''))])"
    using stager_claim_returns_false[of example_world example_stager "[]"] over w(5)
    by auto
  have 4: "stager_do_work example_world example_stager [] =
       Some (Inr (),
        [stager_pop example_stager,
         Request LTA ''PATCH'' ''/Bundles/b1'' [] (Some (unclaim_body ''2019-07-25T12:00:00''))])"
    using stager_claim_returns_false[of example_world example_stager "[]"] 3 by simp
  show ?thesis using 1 2 3 4 by simp
qed

subsection \<open>File discovery\<close>

lemma stops_after_iff:
  "stops_after (length p) ps \<longleftrightarrow>
     (\<forall>x \<in> set (butlast (p # ps)). length x = FILE_CATALOG_LIMIT) \<and> length (last (p # ps)) \<noteq> FILE_CATALOG_LIMIT"
  by (induction ps arbitrary: p) auto

lemma page_loop_serves:
  "answers world t (later_requests q page_start num_files pages) pages \<Longrightarrow>
   stops_after num_files pages \<Longrightarrow>
   page_loop world q page_start num_files acc t =
     Some (Inr (acc @ concat pages), t @ later_requests q page_start num_files pages)"
proof (induction pages arbitrary: page_start num_files acc t)
  case Nil
  then show ?case by (subst page_loop.simps) simp
next
  case (Cons p ps)
  from Cons.prems have full: "num_files = FILE_CATALOG_LIMIT" and rest: "stops_after (length p) ps"
    by simp_all
  from Cons.prems(1) have a: "fc_page world (t @ [next_page_request q (page_start + num_files)]) = Inr p"
    and b: "answers world (t @ [next_page_request q (page_start + num_files)])
              (later_requests q (page_start + num_files) (length p) ps) ps"
    by simp_all
  show ?case
    by (subst page_loop.simps) (simp add: full[symmetric] request_def a Cons.IH[OF b rest])
qed

lemma query_serves:
  assumes "pages \<noteq> []" "answers world t (page_requests q pages) pages"
     "\<forall>p \<in> set (butlast pages). length p = FILE_CATALOG_LIMIT"
     "length (last pages) \<noteq> FILE_CATALOG_LIMIT"
  shows "query_file_catalog world q t = Some (Inr (concat pages), t @ page_requests q pages)"
proof -
  obtain p ps where pages: "pages = p # ps" using assms(1) by (cases pages) auto
  from assms(3,4) have s: "stops_after (length p) ps" unfolding pages stops_after_iff by simp
  from assms(2) have a: "fc_page world (t @ [first_page_request q 0]) = Inr p"
    and b: "answers world (t @ [first_page_request q 0]) (later_requests q 0 (length p) ps) ps"
    by (simp_all add: pages)
  show ?thesis
    by (simp add: query_file_catalog_def request_def a page_loop_serves[OF b s] pages)
qed

lemma length_later_requests: "length (later_requests q s n pages) = length pages"
  by (induction pages arbitrary: s n) auto

lemma nth_later_requests:
  "i < length pages \<Longrightarrow>
   later_requests q s n pages ! i = next_page_request q (s + n + sum_list (map length (take i pages)))"
proof (induction pages arbitrary: s n i)
  case Nil
  then show ?case by simp
next
  case (Cons p ps)
  show ?case
  proof (cases i)
    case 0
    then show ?thesis by simp
  next
    case (Suc j)
    with Cons.prems have "j < length ps" by simp
    from Cons.IH[OF this, of "s + n" "length p"] Suc show ?thesis by (simp add: add.assoc)
  qed
qed

lemma page_loop_complete:
  assumes run: "page_loop world q page_start num_files acc t = Some y"
  shows "(\<exists>rs. snd y = t @ rs \<and> (\<forall>ev\<in>set rs. \<exists>s. ev = next_page_request q s)) \<and>
     (\<forall>files. fst y = Inr files \<longrightarrow>
        (\<exists>pages. answers world t (later_requests q page_start num_files pages) pages
           \<and> stops_after num_files pages \<and> files = acc @ concat pages
           \<and> snd y = t @ later_requests q page_start num_files pages))"
proof -
  let ?P = "\<lambda>world q page_start num_files acc t y.
     (\<exists>rs. snd y = t @ rs \<and> (\<forall>ev\<in>set rs. \<exists>s. ev = next_page_request q s)) \<and>
     (\<forall>files. fst y = Inr files \<longrightarrow>
        (\<exists>pages. answers world t (later_requests q page_start num_files pages) pages
           \<and> stops_after num_files pages \<and> files = acc @ concat pages
           \<and> snd y = t @ later_requests q page_start num_files pages))"
  have "?P world q page_start num_files acc t y"
  proof (rule page_loop.raw_induct[where P = ?P, OF _ run])
    fix loop world q page_start num_files acc t y
    assume IH: "\<And>world q page_start num_files acc t y.
                  loop world q page_start num_files acc t = Some y \<Longrightarrow> ?P world q page_start num_files acc t y"
      and step: "(if num_files = FILE_CATALOG_LIMIT then
                    (case request (fc_page world) (next_page_request q (page_start + num_files)) t of
                       (Inl e, t') \<Rightarrow> Some (Inl e, t')
                     | (Inr files, t') \<Rightarrow>
                         loop world q (page_start + num_files) (length files) (acc @ files) t')
                  else Some (Inr acc, t)) = Some y"
    show "?P world q page_start num_files acc t y"
    proof (cases "num_files = FILE_CATALOG_LIMIT")
      case False
      with step have y: "y = (Inr acc, t)" by simp
      have "answers world t (later_requests q page_start num_files []) [] \<and> stops_after num_files []
          \<and> acc = acc @ concat [] \<and> t = t @ later_requests q page_start num_files []"
        using False by simp
      then have "\<exists>pages. answers world t (later_requests q page_start num_files pages) pages
             \<and> stops_after num_files pages \<and> acc = acc @ concat pages
             \<and> t = t @ later_requests q page_start num_files pages" by (rule exI[of _ "[]"])
      then show ?thesis unfolding y by simp
    next
      case True
      let ?r = "next_page_request q (page_start + num_files)"
      show ?thesis
      proof (cases "fc_page world (t @ [?r])")
        case (Inl e)
        with step True have y: "y = (Inl e, t @ [?r])" by (simp add: request_def)
        have "\<forall>ev\<in>set [?r]. \<exists>s. ev = next_page_request q s" by auto
        then have "\<exists>rs. t @ [?r] = t @ rs \<and> (\<forall>ev\<in>set rs. \<exists>s. ev = next_page_request q s)" by blast
        then show ?thesis unfolding y by simp
      next
        case (Inr p)
        with step True have rec: "loop world q (page_start + num_files) (length p) (acc @ p) (t @ [?r]) = Some y"
          by (simp add: request_def)
        note H = IH[OF rec]
        from H obtain rs where rs: "snd y = (t @ [?r]) @ rs" "\<forall>ev\<in>set rs. \<exists>s. ev = next_page_request q s"
          by blast
        have A: "\<exists>rs. snd y = t @ rs \<and> (\<forall>ev\<in>set rs. \<exists>s. ev = next_page_request q s)"
        proof (intro exI conjI)
          show "snd y = t @ (?r # rs)" using rs(1) by simp
          show "\<forall>ev\<in>set (?r # rs). \<exists>s. ev = next_page_request q s" using rs(2) by auto
        qed
        have B: "\<exists>pages. answers world t (later_requests q page_start num_files pages) pages
             \<and> stops_after num_files pages \<and> files = acc @ concat pages
             \<and> snd y = t @ later_requests q page_start num_files pages" if f: "fst y = Inr files" for files
        proof -
          from H f obtain ps where ps:
            "answers world (t @ [?r]) (later_requests q (page_start + num_files) (length p) ps) ps"
            "stops_after (length p) ps" "files = (acc @ p) @ concat ps"
            "snd y = (t @ [?r]) @ later_requests q (page_start + num_files) (length p) ps"
            by blast
          have "answers world t (later_requests q page_start num_files (p # ps)) (p # ps)
             \<and> stops_after num_files (p # ps) \<and> files = acc @ concat (p # ps)
             \<and> snd y = t @ later_requests q page_start num_files (p # ps)"
            using ps Inr True by simp
          then show ?thesis by (rule exI[of _ "p # ps"])
        qed
        from A B show ?thesis by blast
      qed
    qed
  qed
  then show ?thesis .
qed

lemma query_complete:
  assumes "query_file_catalog world q t = Some (Inr files, t')"
  shows "\<exists>pages. pages \<noteq> [] \<and> answers world t (page_requests q pages) pages
           \<and> (\<forall>p \<in> set (butlast pages). length p = FILE_CATALOG_LIMIT)
           \<and> length (last pages) \<noteq> FILE_CATALOG_LIMIT
           \<and> files = concat pages \<and> t' = t @ page_requests q pages"
proof (cases "fc_page world (t @ [first_page_request q 0])")
  case (Inl e)
  with assms show ?thesis by (simp add: query_file_catalog_def request_def)
next
  case (Inr p)
  with assms have "page_loop world q 0 (length p) p (t @ [first_page_request q 0]) = Some (Inr files, t')"
    by (simp add: query_file_catalog_def request_def)
  from page_loop_complete[OF this] obtain ps where ps:
    "answers world (t @ [first_page_request q 0]) (later_requests q 0 (length p) ps) ps"
    "stops_after (length p) ps" "files = p @ concat ps"
    "t' = (t @ [first_page_request q 0]) @ later_requests q 0 (length p) ps"
    by auto
  have "p # ps \<noteq> [] \<and> answers world t (page_requests q (p # ps)) (p # ps)
           \<and> (\<forall>x \<in> set (butlast (p # ps)). length x = FILE_CATALOG_LIMIT)
           \<and> length (last (p # ps)) \<noteq> FILE_CATALOG_LIMIT
           \<and> files = concat (p # ps) \<and> t' = t @ page_requests q (p # ps)"
    using ps Inr stops_after_iff[of p ps] by simp
  then show ?thesis by blast
qed

lemma query_events:
  assumes "query_file_catalog world q t = Some (r, t')"
  shows "\<exists>rs. t' = t @ rs \<and> (\<forall>ev\<in>set rs. is_page_request ev)"
proof (cases "fc_page world (t @ [first_page_request q 0])")
  case (Inl e)
  with assms have "t' = t @ [first_page_request q 0]" by (auto simp: query_file_catalog_def request_def)
  then show ?thesis by (auto simp: is_page_request_def first_page_request_def)
next
  case (Inr p)
  with assms have "page_loop world q 0 (length p) p (t @ [first_page_request q 0]) = Some (r, t')"
    by (simp add: query_file_catalog_def request_def)
  from page_loop_complete[OF this] obtain rs where
    rs: "t' = (t @ [first_page_request q 0]) @ rs" "\<forall>ev\<in>set rs. \<exists>s. ev = next_page_request q s"
    by auto
  have "t' = t @ (first_page_request q 0 # rs)" using rs(1) by simp
  moreover have "\<forall>ev\<in>set (first_page_request q 0 # rs). is_page_request ev"
    using rs(2) by (auto simp: is_page_request_def first_page_request_def next_page_request_def)
  ultimately show ?thesis by blast
qed

text \<open>
  C5. The file discovery of Picker and Locator. If the catalog answers the successive
  requests with the pages \<open>pages\<close>, of which all but the last have exactly
  \<open>FILE_CATALOG_LIMIT = 9000\<close> entries and the last has any other number, then the discovery
  returns, it has made exactly one request per page, and the accumulated list is the
  concatenation of the pages in order; every discovery that returns a list is of this form.
  The first request carries \<open>keys=uuid\<close> at offset 0; the request for page \<open>i > 0\<close>
  carries no \<open>keys\<close> and starts at the sum of the lengths of the pages before it, which is
  the offset of the request before plus the length of the page before.
\<close>

theorem paging_contract:
  "(pages \<noteq> [] \<and> answers world t (page_requests q pages) pages
      \<and> (\<forall>p \<in> set (butlast pages). length p = FILE_CATALOG_LIMIT)
      \<and> length (last pages) \<noteq> FILE_CATALOG_LIMIT \<longrightarrow>
    query_file_catalog world q t = Some (Inr (concat pages), t @ page_requests q pages))
   \<and> (\<forall>files t'. query_file_catalog world q t = Some (Inr files, t') \<longrightarrow>
        (\<exists>ps. ps \<noteq> [] \<and> answers world t (page_requests q ps) ps
           \<and> (\<forall>p \<in> set (butlast ps). length p = FILE_CATALOG_LIMIT)
           \<and> length (last ps) \<noteq> FILE_CATALOG_LIMIT
           \<and> files = concat ps \<and> t' = t @ page_requests q ps))
   \<and> length (page_requests q pages) = length pages
   \<and> (pages \<noteq> [] \<longrightarrow>
        page_requests q pages ! 0 =
          Request FC ''GET'' ''/api/files''
            [(''query'', q), (''keys'', JStr ''uuid''), (''limit'', JInt 9000), (''start'', JInt 0)] None)
   \<and> (\<forall>i. 0 < i \<and> i < length pages \<longrightarrow>
        page_requests q pages ! i =
          Request FC ''GET'' ''/api/files''
            [(''query'', q), (''limit'', JInt 9000),
             (''start'', JInt (int (sum_list (map length (take i pages)))))] None)
   \<and> FILE_CATALOG_LIMIT = 9000"
proof -
  have len: "length (page_requests q pages) = length pages"
    by (cases pages) (simp_all add: length_later_requests)
  have first: "pages \<noteq> [] \<Longrightarrow> page_requests q pages ! 0 =
          Request FC ''GET'' ''/api/files''
            [(''query'', q), (''keys'', JStr ''uuid''), (''limit'', JInt 9000), (''start'', JInt 0)] None"
    by (cases pages) (simp_all add: first_page_request_def FILE_CATALOG_LIMIT_def)
  have later: "page_requests q pages ! i =
          Request FC ''GET'' ''/api/files''
            [(''query'', q), (''limit'', JInt 9000),
             (''start'', JInt (int (sum_list (map length (take i pages)))))] None"
    if i: "0 < i" "i < length pages" for i
  proof -
    obtain p ps where pages: "pages = p # ps" using i by (cases pages) auto
    obtain j where j: "i = Suc j" using i(1) by (cases i) auto
    with i(2) pages have "j < length ps" by simp
    from nth_later_requests[OF this, of q 0 "length p"] show ?thesis
      by (simp add: pages j next_page_request_def FILE_CATALOG_LIMIT_def)
  qed
  show ?thesis
    using query_serves[of pages world t q] query_complete[of world q t] len first later
    by (simp add: FILE_CATALOG_LIMIT_def)
qed

theorem paging_contract_witness:
  "query_file_catalog two_page_world (picker_query ''WIPAC'' ''/data/exp'') [] =
     Some (Inr (replicate FILE_CATALOG_LIMIT ''f1'' @ [''f2'']),
           [Request FC ''GET'' ''/api/files''
              [(''query'', picker_query ''WIPAC'' ''/data/exp''), (''keys'', JStr ''uuid''),
               (''limit'', JInt 9000), (''start'', JInt 0)] None,
            Request FC ''GET'' ''/api/files''
              [(''query'', picker_query ''WIPAC'' ''/data/exp''),
               (''limit'', JInt 9000), (''start'', JInt 9000)] None])"
proof -
  let ?q = "picker_query ''WIPAC'' ''/data/exp''"
  let ?pages = "[replicate FILE_CATALOG_LIMIT ''f1'', [''f2'']]"
  have a: "answers two_page_world [] (page_requests ?q ?pages) ?pages"
    by (simp add: two_page_world_def example_world_def)
  have b: "\<forall>p \<in> set (butlast ?pages). length p = FILE_CATALOG_LIMIT" by simp
  have c: "length (last ?pages) \<noteq> FILE_CATALOG_LIMIT" by (simp add: FILE_CATALOG_LIMIT_def)
  have r0: "page_requests ?q ?pages ! 0 = Request FC ''GET'' ''/api/files''
              [(''query'', ?q), (''keys'', JStr ''uuid''), (''limit'', JInt 9000), (''start'', JInt 0)] None"
    using paging_contract[of ?pages two_page_world "[]" ?q] by simp
  have "\<forall>i. 0 < i \<and> i < length ?pages \<longrightarrow>
        page_requests ?q ?pages ! i =
          Request FC ''GET'' ''/api/files''
            [(''query'', ?q), (''limit'', JInt 9000),
             (''start'', JInt (int (sum_list (map length (take i ?pages)))))] None"
    using paging_contract[of ?pages two_page_world "[]" ?q] by blast
  from this[rule_format, of 1]
  have r1: "page_requests ?q ?pages ! 1 = Request FC ''GET'' ''/api/files''
              [(''query'', ?q), (''limit'', JInt 9000), (''start'', JInt 9000)] None"
    by (simp add: FILE_CATALOG_LIMIT_def)
  have reqs: "page_requests ?q ?pages = [page_requests ?q ?pages ! 0, page_requests ?q ?pages ! 1]"
    by simp
  have "query_file_catalog two_page_world ?q [] = Some (Inr (concat ?pages), [] @ page_requests ?q ?pages)"
    using paging_contract[of ?pages two_page_world "[]" ?q] a b c by blast
  then show ?thesis unfolding reqs[unfolded r0 r1] by simp
qed

subsection \<open>Picker and Locator: the steps after the discovery\<close>

lemma quarantine_transfer_request_eq:
  "quarantine_transfer_request world self tr cause t =
     (Inr (), t @ [quarantine_request self tr cause (now world t)])"
  by (simp add: quarantine_transfer_request_def perform_def Let_def quarantine_request_def
        quarantine_body_def transfer_request_url_def split: option.splits)

lemma fetch_records_shape:
  "fetch_records world fs acc t = (r, t') \<Longrightarrow>
     \<exists>k \<le> length fs. t' = t @ map file_request (take k fs)
        \<and> (\<forall>R. r = Inr R \<longrightarrow> k = length fs \<and> length R = length acc + length fs)"
proof (induction fs arbitrary: acc t)
  case Nil
  then show ?case by (auto simp: io_return_def)
next
  case (Cons f fs)
  show ?case
  proof (cases "fc_file world (t @ [file_request f])")
    case (Inl e)
    with Cons.prems have "r = Inl e" "t' = t @ map file_request (take 1 (f # fs))"
      by (auto simp: io_bind_def request_def)
    then show ?thesis by (intro exI[of _ 1]) simp
  next
    case (Inr x)
    with Cons.prems have "fetch_records world fs (acc @ [x]) (t @ [file_request f]) = (r, t')"
      by (simp add: io_bind_def request_def)
    from Cons.IH[OF this] obtain k where k: "k \<le> length fs"
      "t' = (t @ [file_request f]) @ map file_request (take k fs)"
      "\<forall>R. r = Inr R \<longrightarrow> k = length fs \<and> length R = length (acc @ [x]) + length fs"
      by blast
    then show ?thesis by (intro exI[of _ "Suc k"]) auto
  qed
qed

lemma fetch_records_ok:
  "fetch_records world fs acc t = (Inr R, t') \<Longrightarrow>
     t' = t @ map file_request fs \<and> length R = length acc + length fs"
  using fetch_records_shape[of world fs acc t "Inr R" t'] by auto

lemma create_bundle_eq:
  "create_bundle world doc t =
     ((case lta_bulk_create world (t @ [bulk_create_request doc]) of
         Inl e \<Rightarrow> Inl e
       | Inr [] \<Rightarrow> Inl IndexError
       | Inr (u # us) \<Rightarrow> Inr u),
      t @ [bulk_create_request doc])"
  by (simp add: create_bundle_def io_bind_def request_def bulk_create_request_def io_raise_def
        io_return_def split: sum.splits list.splits)

lemma picker_create_bundles_shape:
  "picker_create_bundles world tr specs t = (r, t') \<Longrightarrow>
     \<exists>k \<le> length specs. t' = t @ map (\<lambda>spec. bulk_create_request (picker_bundle tr spec)) (take k specs)
        \<and> (r = Inr () \<longrightarrow> k = length specs)"
proof (induction specs arbitrary: t)
  case Nil
  then show ?case by (auto simp: io_return_def)
next
  case (Cons spec specs)
  let ?ev = "bulk_create_request (picker_bundle tr spec)"
  show ?case
  proof (cases "fst (create_bundle world (picker_bundle tr spec) t)")
    case (Inl e)
    with Cons.prems have "r = Inl e" "t' = t @ map (\<lambda>spec. bulk_create_request (picker_bundle tr spec)) (take 1 (spec # specs))"
      by (auto simp: io_bind_def create_bundle_eq split: prod.splits)
    then show ?thesis by (intro exI[of _ 1]) simp
  next
    case (Inr u)
    with Cons.prems have "picker_create_bundles world tr specs (t @ [?ev]) = (r, t')"
      by (auto simp: io_bind_def create_bundle_eq split: prod.splits)
    from Cons.IH[OF this] obtain k where k: "k \<le> length specs"
      "t' = (t @ [?ev]) @ map (\<lambda>spec. bulk_create_request (picker_bundle tr spec)) (take k specs)"
      "r = Inr () \<longrightarrow> k = length specs"
      by blast
    then show ?thesis by (intro exI[of _ "Suc k"]) auto
  qed
qed

lemma picker_after_discovery:
  assumes "query_file_catalog world (picker_query (tr_source tr) (tr_path tr)) t = Some (Inr files, t1)"
      and "files \<noteq> []"
      and "fetch_records world files [] t1 = (Inr R, t2)"
      and "getitem (sites self) (tr_dest tr) = Inr site_config"
  shows "picker_do_work_transfer_request world self tr t =
     Some (case find (\<lambda>spec. int (length spec) > max_file_count self)
                  (to_constant_volume (map (\<lambda>r. (cr_file_size r, r)) R) (bundle_size site_config)) of
             Some spec \<Rightarrow>
               quarantine_transfer_request world self tr
                 (''Bundle packing list contains '' @ str_int (int (length spec))
                    @ '' files; MAX_FILE_COUNT is configured at '' @ str_int (max_file_count self)) t2
           | None \<Rightarrow>
               picker_create_bundles world tr
                 (to_constant_volume (map (\<lambda>r. (cr_file_size r, r)) R) (bundle_size site_config)) t2)"
  using assms
  by (simp add: picker_do_work_transfer_request_def Let_def io_bind_def io_lift_def split: option.splits)

lemma picker_empty_discovery:
  assumes "query_file_catalog world (picker_query (tr_source tr) (tr_path tr)) t = Some (Inr [], t1)"
  shows "picker_do_work_transfer_request world self tr t =
     Some (Inr (), t1 @ [quarantine_request self tr
                           ''File Catalog returned zero files for the TransferRequest'' (now world t1)])"
  using assms
  by (simp add: picker_do_work_transfer_request_def Let_def quarantine_transfer_request_eq)

lemma locator_empty_discovery:
  assumes "query_file_catalog world (locator_query (tr_source tr) (tr_path tr)) t = Some (Inr [], t1)"
  shows "locator_do_work_transfer_request world self tr t =
     Some (Inr (), t1 @ [quarantine_request self tr
                           ''File Catalog returned zero files for the TransferRequest'' (now world t1)])"
  using assms
  by (simp add: locator_do_work_transfer_request_def Let_def quarantine_transfer_request_eq)

lemma page_requests_only:
  "\<forall>ev\<in>set rs. is_page_request ev \<Longrightarrow>
     filter is_record_fetch rs = [] \<and> filter is_bulk_create rs = [] \<and> filter is_patch rs = []
     \<and> emitted_bundles rs = []"
  by (induction rs)
     (auto simp: is_page_request_def is_record_fetch_def is_bulk_create_def is_patch_def
        emitted_bundles_def posted_bundles_def split: event.splits)

lemma file_requests_only:
  "filter is_bulk_create (map file_request fs) = [] \<and> filter is_patch (map file_request fs) = []
     \<and> emitted_bundles (map file_request fs) = []"
  by (induction fs)
     (auto simp: file_request_def is_bulk_create_def is_patch_def emitted_bundles_def posted_bundles_def)

lemma quarantine_request_only:
  "is_patch (quarantine_request self tr cause right_now)
   \<and> \<not> is_bulk_create (quarantine_request self tr cause right_now)
   \<and> \<not> is_record_fetch (quarantine_request self tr cause right_now)
   \<and> posted_bundles (quarantine_request self tr cause right_now) = []"
  by (simp add: quarantine_request_def is_patch_def is_bulk_create_def is_record_fetch_def posted_bundles_def)

lemma emitted_bundles_append: "emitted_bundles (xs @ ys) = emitted_bundles xs @ emitted_bundles ys"
  by (simp add: emitted_bundles_def)

lemma empty_discovery_cycle:
  assumes "query_file_catalog world q t = Some (Inr [], t1)"
  shows "filter is_record_fetch (drop (length t) (t1 @ [quarantine_request self tr cause right_now])) = []
       \<and> filter is_bulk_create (drop (length t) (t1 @ [quarantine_request self tr cause right_now])) = []
       \<and> emitted_bundles (drop (length t) (t1 @ [quarantine_request self tr cause right_now])) = []
       \<and> filter is_patch (drop (length t) (t1 @ [quarantine_request self tr cause right_now]))
           = [quarantine_request self tr cause right_now]"
proof -
  from query_events[OF assms] obtain rs where rs: "t1 = t @ rs" "\<forall>ev\<in>set rs. is_page_request ev"
    by blast
  show ?thesis
    using page_requests_only[OF rs(2)] quarantine_request_only[of self tr cause right_now]
    by (simp add: rs(1) emitted_bundles_append emitted_bundles_def)
qed

text \<open>
  C7. When the paged catalog query of a Picker or Locator cycle returns no file at all, the
  cycle sends the quarantine PATCH of the claimed TransferRequest with the cause
  \<open>File Catalog returned zero files for the TransferRequest\<close> and ends: among the requests of
  the cycle there is no per-uuid record fetch and no \<open>bulk_create\<close>, and that PATCH is the
  only PATCH.
\<close>

theorem zero_files_quarantines:
  "(query_file_catalog world (picker_query (tr_source tr) (tr_path tr)) t = Some (Inr [], t1) \<longrightarrow>
      (let patch = Request LTA ''PATCH'' (''/TransferRequests/'' @ tr_uuid tr) []
                     (Some (JObj [(''status'', JStr ''quarantined''),
                                  (''reason'', JStr (''BY:'' @ name pself @ ''-'' @ instance_uuid pself @ '' REASON:''
                                     @ ''File Catalog returned zero files for the TransferRequest'')),
                                  (''work_priority_timestamp'', JStr (now world t1))]));
           cycle = drop (length t) (t1 @ [patch])
       in picker_do_work_transfer_request world pself tr t = Some (Inr (), t1 @ [patch])
          \<and> filter is_record_fetch cycle = [] \<and> filter is_bulk_create cycle = []
          \<and> emitted_bundles cycle = [] \<and> filter is_patch cycle = [patch]))
   \<and> (query_file_catalog world (locator_query (tr_source tr) (tr_path tr)) t = Some (Inr [], t1) \<longrightarrow>
      (let patch = Request LTA ''PATCH'' (''/TransferRequests/'' @ tr_uuid tr) []
                     (Some (JObj [(''status'', JStr ''quarantined''),
                                  (''reason'', JStr (''BY:'' @ name lself @ ''-'' @ instance_uuid lself @ '' REASON:''
                                     @ ''File Catalog returned zero files for the TransferRequest'')),
                                  (''work_priority_timestamp'', JStr (now world t1))]));
           cycle = drop (length t) (t1 @ [patch])
       in locator_do_work_transfer_request world lself tr t = Some (Inr (), t1 @ [patch])
          \<and> filter is_record_fetch cycle = [] \<and> filter is_bulk_create cycle = []
          \<and> emitted_bundles cycle = [] \<and> filter is_patch cycle = [patch]))"
proof (intro conjI impI)
  assume q: "query_file_catalog world (picker_query (tr_source tr) (tr_path tr)) t = Some (Inr [], t1)"
  show "let patch = Request LTA ''PATCH'' (''/TransferRequests/'' @ tr_uuid tr) []
                     (Some (JObj [(''status'', JStr ''quarantined''),
                                  (''reason'', JStr (''BY:'' @ name pself @ ''-'' @ instance_uuid pself @ '' REASON:''
                                     @ ''File Catalog returned zero files for the TransferRequest'')),
                                  (''work_priority_timestamp'', JStr (now world t1))]));
           cycle = drop (length t) (t1 @ [patch])
       in picker_do_work_transfer_request world pself tr t = Some (Inr (), t1 @ [patch])
          \<and> filter is_record_fetch cycle = [] \<and> filter is_bulk_create cycle = []
          \<and> emitted_bundles cycle = [] \<and> filter is_patch cycle = [patch]"
    using picker_empty_discovery[OF q, of pself]
      empty_discovery_cycle[OF q, of pself tr "''File Catalog returned zero files for the TransferRequest''" "now world t1"]
    unfolding Let_def quarantine_request_def by simp
next
  assume q: "query_file_catalog world (locator_query (tr_source tr) (tr_path tr)) t = Some (Inr [], t1)"
  show "let patch = Request LTA ''PATCH'' (''/TransferRequests/'' @ tr_uuid tr) []
                     (Some (JObj [(''status'', JStr ''quarantined''),
                                  (''reason'', JStr (''BY:'' @ name lself @ ''-'' @ instance_uuid lself @ '' REASON:''
                                     @ ''File Catalog returned zero files for the TransferRequest'')),
                                  (''work_priority_timestamp'', JStr (now world t1))]));
           cycle = drop (length t) (t1 @ [patch])
       in locator_do_work_transfer_request world lself tr t = Some (Inr (), t1 @ [patch])
          \<and> filter is_record_fetch cycle = [] \<and> filter is_bulk_create cycle = []
          \<and> emitted_bundles cycle = [] \<and> filter is_patch cycle = [patch]"
    using locator_empty_discovery[OF q, of lself]
      empty_discovery_cycle[OF q, of lself tr "''File Catalog returned zero files for the TransferRequest''" "now world t1"]
    unfolding Let_def quarantine_request_def by simp
qed

lemma empty_catalog_query:
  "query_file_catalog empty_catalog_world q [] = Some (Inr [], [first_page_request q 0])"
  using query_serves[of "[[]]" empty_catalog_world "[]" q]
  by (simp add: empty_catalog_world_def FILE_CATALOG_LIMIT_def)

theorem zero_files_quarantines_witness:
  "picker_do_work_transfer_request empty_catalog_world example_picker example_request [] =
     Some (Inr (),
       [first_page_request (picker_query ''WIPAC'' ''/data/exp'') 0,
        Request LTA ''PATCH'' ''/TransferRequests/tr1'' []
          (Some (JObj [(''status'', JStr ''quarantined''),
                       (''reason'', JStr ''BY:picker-9c1b REASON:File Catalog returned zero files for the TransferRequest''),
                       (''work_priority_timestamp'', JStr ''2019-07-25T12:00:00'')]))])
   \<and> locator_do_work_transfer_request empty_catalog_world example_locator example_restore [] =
     Some (Inr (),
       [first_page_request (locator_query ''NERSC'' ''/data/exp'') 0,
        Request LTA ''PATCH'' ''/TransferRequests/tr2'' []
          (Some (JObj [(''status'', JStr ''quarantined''),
                       (''reason'', JStr ''BY:locator-4d2f REASON:File Catalog returned zero files for the TransferRequest''),
                       (''work_priority_timestamp'', JStr ''2019-07-25T12:00:00'')]))])"
proof -
  have c: "tr_source example_request = ''WIPAC''" "tr_path example_request = ''/data/exp''"
          "tr_uuid example_request = ''tr1''"
          "tr_source example_restore = ''NERSC''" "tr_path example_restore = ''/data/exp''"
          "tr_uuid example_restore = ''tr2''"
          "name example_picker = ''picker''" "instance_uuid example_picker = ''9c1b''"
          "name example_locator = ''locator''" "instance_uuid example_locator = ''4d2f''"
          "now empty_catalog_world t = ''2019-07-25T12:00:00''" for t
    by (simp_all add: example_request_def example_restore_def example_picker_def example_locator_def
          empty_catalog_world_def example_world_def)
  have p: "query_file_catalog empty_catalog_world
             (picker_query (tr_source example_request) (tr_path example_request)) []
           = Some (Inr [], [first_page_request (picker_query ''WIPAC'' ''/data/exp'') 0])"
    by (simp add: c empty_catalog_query)
  have l: "query_file_catalog empty_catalog_world
             (locator_query (tr_source example_restore) (tr_path example_restore)) []
           = Some (Inr [], [first_page_request (locator_query ''NERSC'' ''/data/exp'') 0])"
    by (simp add: c empty_catalog_query)
  have 1: "picker_do_work_transfer_request empty_catalog_world example_picker example_request [] =
     Some (Inr (),
       [first_page_request (picker_query ''WIPAC'' ''/data/exp'') 0,
        Request LTA ''PATCH'' ''/TransferRequests/tr1'' []
          (Some (JObj [(''status'', JStr ''quarantined''),
                       (''reason'', JStr ''BY:picker-9c1b REASON:File Catalog returned zero files for the TransferRequest''),
                       (''work_priority_timestamp'', JStr ''2019-07-25T12:00:00'')]))])"
    using zero_files_quarantines[of empty_catalog_world example_request "[]"
            "[first_page_request (picker_query ''WIPAC'' ''/data/exp'') 0]" example_picker example_locator] p
    by (simp add: Let_def c)
  have 2: "locator_do_work_transfer_request empty_catalog_world example_locator example_restore [] =
     Some (Inr (),
       [first_page_request (locator_query ''NERSC'' ''/data/exp'') 0,
        Request LTA ''PATCH'' ''/TransferRequests/tr2'' []
          (Some (JObj [(''status'', JStr ''quarantined''),
                       (''reason'', JStr ''BY:locator-4d2f REASON:File Catalog returned zero files for the TransferRequest''),
                       (''work_priority_timestamp'', JStr ''2019-07-25T12:00:00'')]))])"
    using zero_files_quarantines[of empty_catalog_world example_restore "[]"
            "[first_page_request (locator_query ''NERSC'' ''/data/exp'') 0]" example_picker example_locator] l
    by (simp add: Let_def c)
  show ?thesis using 1 2 by simp
qed

lemma find_first_oversized:
  "\<exists>spec \<in> set specs. P spec \<Longrightarrow> \<exists>spec. find P specs = Some spec \<and> spec \<in> set specs \<and> P spec"
  by (induction specs) auto

lemma fetched_cycle:
  assumes "query_file_catalog world q t = Some (Inr files, t1)"
      and "fetch_records world files [] t1 = (Inr R, t2)"
  shows "\<exists>rs. t2 = t @ rs \<and> filter is_bulk_create rs = [] \<and> filter is_patch rs = []
            \<and> emitted_bundles rs = []"
proof -
  from query_events[OF assms(1)] obtain rs where rs: "t1 = t @ rs" "\<forall>ev\<in>set rs. is_page_request ev"
    by blast
  from fetch_records_ok[OF assms(2)] have t2: "t2 = t @ (rs @ map file_request files)"
    by (simp add: rs(1))
  have "filter is_bulk_create (rs @ map file_request files) = []
      \<and> filter is_patch (rs @ map file_request files) = []
      \<and> emitted_bundles (rs @ map file_request files) = []"
    using page_requests_only[OF rs(2)] file_requests_only[of files]
    by (simp add: emitted_bundles_append)
  with t2 show ?thesis by blast
qed

text \<open>
  C2. When the bin packing of a Picker cycle produces a bin with more than
  \<open>max_file_count\<close> files, the cycle sends no \<open>bulk_create\<close> at all and exactly one PATCH:
  the quarantine of the TransferRequest, whose reason spells out, in decimal, the number of
  files of such a bin (the first in packing order) and the configured \<open>max_file_count\<close>.
\<close>

theorem oversized_bin_quarantines:
  assumes "query_file_catalog world (picker_query (tr_source tr) (tr_path tr)) t = Some (Inr files, t1)"
      and "files \<noteq> []"
      and "fetch_records world files [] t1 = (Inr R, t2)"
      and "getitem (sites self) (tr_dest tr) = Inr site_config"
      and "\<exists>spec \<in> set (to_constant_volume (map (\<lambda>r. (cr_file_size r, r)) R) (bundle_size site_config)).
             int (length spec) > max_file_count self"
  shows "\<exists>spec \<in> set (to_constant_volume (map (\<lambda>r. (cr_file_size r, r)) R) (bundle_size site_config)).
           int (length spec) > max_file_count self \<and>
           (let patch = Request LTA ''PATCH'' (''/TransferRequests/'' @ tr_uuid tr) []
                          (Some (JObj [(''status'', JStr ''quarantined''),
                                       (''reason'', JStr (''BY:'' @ name self @ ''-'' @ instance_uuid self
                                          @ '' REASON:'' @ ''Bundle packing list contains ''
                                          @ str_int (int (length spec))
                                          @ '' files; MAX_FILE_COUNT is configured at ''
                                          @ str_int (max_file_count self))),
                                       (''work_priority_timestamp'', JStr (now world t2))]));
                cycle = drop (length t) (t2 @ [patch])
            in picker_do_work_transfer_request world self tr t = Some (Inr (), t2 @ [patch])
               \<and> filter is_bulk_create cycle = [] \<and> emitted_bundles cycle = []
               \<and> filter is_patch cycle = [patch])"
proof -
  let ?specs = "to_constant_volume (map (\<lambda>r. (cr_file_size r, r)) R) (bundle_size site_config)"
  from find_first_oversized[OF assms(5)] obtain spec where
    spec: "find (\<lambda>spec. int (length spec) > max_file_count self) ?specs = Some spec"
          "spec \<in> set ?specs" "int (length spec) > max_file_count self"
    by blast
  let ?cause = "''Bundle packing list contains '' @ str_int (int (length spec))
                  @ '' files; MAX_FILE_COUNT is configured at '' @ str_int (max_file_count self)"
  let ?patch = "quarantine_request self tr ?cause (now world t2)"
  have run: "picker_do_work_transfer_request world self tr t = Some (Inr (), t2 @ [?patch])"
    by (simp add: picker_after_discovery[OF assms(1-4)] spec(1) quarantine_transfer_request_eq)
  from fetched_cycle[OF assms(1,3)] obtain rs where rs: "t2 = t @ rs"
    "filter is_bulk_create rs = []" "filter is_patch rs = []" "emitted_bundles rs = []"
    by blast
  have cyc: "filter is_bulk_create (drop (length t) (t2 @ [?patch])) = []
       \<and> emitted_bundles (drop (length t) (t2 @ [?patch])) = []
       \<and> filter is_patch (drop (length t) (t2 @ [?patch])) = [?patch]"
    using rs quarantine_request_only[of self tr ?cause "now world t2"]
    by (simp add: emitted_bundles_append emitted_bundles_def)
  show ?thesis
    using spec(2,3) run cyc unfolding Let_def quarantine_request_def
    by (intro bexI[of _ spec]) simp_all
qed

lemma example_catalog_query:
  "query_file_catalog example_world q [] = Some (Inr [''f1'', ''f2'', ''f3''], [first_page_request q 0])"
  using query_serves[of "[[''f1'', ''f2'', ''f3'']]" example_world "[]" q]
  by (simp add: example_world_def FILE_CATALOG_LIMIT_def)

lemma example_fetch:
  "fetch_records example_world [''f1'', ''f2'', ''f3''] [] t =
     (Inr [example_record ''f1'', example_record ''f2'', example_record ''f3''],
      t @ [file_request ''f1'', file_request ''f2'', file_request ''f3''])"
  by (simp add: io_bind_def request_def io_return_def example_world_def file_request_def)

lemma example_sizes:
  "cr_file_size (example_record ''f1'') = 300"
  "cr_file_size (example_record ''f2'') = 400"
  "cr_file_size (example_record ''f3'') = 500"
  by (simp_all add: example_record_def)

lemma example_packing_roomy:
  "to_constant_volume
      [(cr_file_size (example_record ''f1''), example_record ''f1''),
       (cr_file_size (example_record ''f2''), example_record ''f2''),
       (cr_file_size (example_record ''f3''), example_record ''f3'')] 10000
   = [[(500, example_record ''f3''), (400, example_record ''f2''), (300, example_record ''f1'')]]"
  by (simp add: to_constant_volume_def example_sizes)

theorem oversized_bin_quarantines_witness:
  "picker_do_work_transfer_request example_world strict_picker example_request [] =
     Some (Inr (),
       [first_page_request (picker_query ''WIPAC'' ''/data/exp'') 0,
        file_request ''f1'', file_request ''f2'', file_request ''f3'',
        Request LTA ''PATCH'' ''/TransferRequests/tr1'' []
          (Some (JObj [(''status'', JStr ''quarantined''),
                       (''reason'', JStr ''BY:picker-9c1b REASON:Bundle packing list contains 3 files; MAX_FILE_COUNT is configured at 2''),
                       (''work_priority_timestamp'', JStr ''2019-07-25T12:00:00'')]))])"
proof -
  let ?R = "[example_record ''f1'', example_record ''f2'', example_record ''f3'']"
  let ?t1 = "[first_page_request (picker_query ''WIPAC'' ''/data/exp'') 0]"
  have c: "tr_source example_request = ''WIPAC''" "tr_path example_request = ''/data/exp''"
          "tr_uuid example_request = ''tr1''" "tr_dest example_request = ''NERSC''"
          "name strict_picker = ''picker''" "instance_uuid strict_picker = ''9c1b''"
          "max_file_count strict_picker = 2"
          "now example_world t = ''2019-07-25T12:00:00''" for t
    by (simp_all add: example_request_def example_picker_def strict_picker_def example_world_def)
  have q: "query_file_catalog example_world
             (picker_query (tr_source example_request) (tr_path example_request)) []
           = Some (Inr [''f1'', ''f2'', ''f3''], ?t1)"
    by (simp add: c example_catalog_query)
  have ne: "[''f1'', ''f2'', ''f3''] \<noteq> []" by simp
  have f: "fetch_records example_world [''f1'', ''f2'', ''f3''] [] ?t1
             = (Inr ?R, ?t1 @ [file_request ''f1'', file_request ''f2'', file_request ''f3''])"
    by (rule example_fetch)
  have s: "getitem (sites strict_picker) (tr_dest example_request) = Inr \<lparr>bundle_size = 10000\<rparr>"
    by (simp add: getitem_def strict_picker_def example_picker_def c)
  have big: "\<exists>spec \<in> set (to_constant_volume (map (\<lambda>r. (cr_file_size r, r)) ?R)
                             (bundle_size \<lparr>bundle_size = 10000\<rparr>)).
               int (length spec) > max_file_count strict_picker"
    by (simp add: example_packing_roomy c)
  have n: "str_int 3 = ''3''" "str_int 2 = ''2''"
    by (simp_all add: str_int_def str_nat.simps)
  show ?thesis
    using oversized_bin_quarantines[OF q ne f s big]
    by (simp add: example_packing_roomy c n Let_def)
qed

subsection \<open>Bin packing\<close>














lemma picker_create_bundles_ok:
  "picker_create_bundles world tr specs t = (Inr (), t') \<Longrightarrow>
     t' = t @ map (\<lambda>spec. bulk_create_request (picker_bundle tr spec)) specs"
  using picker_create_bundles_shape[of world tr specs t "Inr ()" t'] by auto

lemma picker_create_bundles_total:
  "\<forall>h. \<exists>u us. lta_bulk_create world h = Inr (u # us) \<Longrightarrow>
     picker_create_bundles world tr specs t =
       (Inr (), t @ map (\<lambda>spec. bulk_create_request (picker_bundle tr spec)) specs)"
proof (induction specs arbitrary: t)
  case Nil
  show ?case by (simp add: io_return_def)
next
  case (Cons spec specs)
  from Cons.prems obtain u us where
    "lta_bulk_create world (t @ [bulk_create_request (picker_bundle tr spec)]) = Inr (u # us)"
    by blast
  then show ?case
    by (simp add: io_bind_def create_bundle_eq Cons.IH[OF Cons.prems])
qed

lemma gate_passes:
  "\<forall>spec \<in> set specs. \<not> P spec \<Longrightarrow> find P specs = None"
  by (induction specs) auto






lemma example_packing:
  "to_constant_volume
      [(cr_file_size (example_record ''f1''), example_record ''f1''),
       (cr_file_size (example_record ''f2''), example_record ''f2''),
       (cr_file_size (example_record ''f3''), example_record ''f3'')] 1000
   = [[(500, example_record ''f3''), (400, example_record ''f2'')], [(300, example_record ''f1'')]]"
  by (simp add: to_constant_volume_def example_sizes)





subsection \<open>The requests of a whole cycle\<close>

lemma one_bundle_at_most_simps:
  "one_bundle_at_most (bulk_create_request doc)"
  "one_bundle_at_most (file_request f)"
  "one_bundle_at_most (quarantine_request self tr cause right_now)"
  "is_page_request ev \<Longrightarrow> one_bundle_at_most ev"
  by (auto simp: one_bundle_at_most_def bulk_create_request_def file_request_def quarantine_request_def
        is_bulk_create_def posted_bundles_def is_page_request_def split: event.splits)

lemma one_bundle_at_most_iff:
  "one_bundle_at_most ev \<longleftrightarrow>
     (is_bulk_create ev \<longrightarrow>
        (\<exists>doc. ev = Request LTA ''POST'' ''/Bundles/actions/bulk_create'' []
                       (Some (JObj [(''bundles'', JList [doc])]))))"
proof (cases "is_bulk_create ev")
  case False
  then show ?thesis by (simp add: one_bundle_at_most_def)
next
  case True
  show ?thesis
  proof
    assume "one_bundle_at_most ev"
    with True obtain doc where "ev = bulk_create_request doc"
      by (auto simp: one_bundle_at_most_def split: list.splits)
    then show "is_bulk_create ev \<longrightarrow>
        (\<exists>doc. ev = Request LTA ''POST'' ''/Bundles/actions/bulk_create'' []
                       (Some (JObj [(''bundles'', JList [doc])])))"
      by (auto simp: bulk_create_request_def)
  next
    assume "is_bulk_create ev \<longrightarrow>
        (\<exists>doc. ev = Request LTA ''POST'' ''/Bundles/actions/bulk_create'' []
                       (Some (JObj [(''bundles'', JList [doc])])))"
    with True obtain doc where "ev = bulk_create_request doc"
      by (auto simp: bulk_create_request_def)
    then show "one_bundle_at_most ev" by (simp add: one_bundle_at_most_simps)
  qed
qed

lemma locator_create_bundles_shape:
  "locator_create_bundles world tr recs t = (r, t') \<Longrightarrow>
     \<exists>k \<le> length (bundle_docs tr recs).
        t' = t @ map bulk_create_request (take k (bundle_docs tr recs))
        \<and> (r = Inr () \<longrightarrow> k = length recs \<and> length (bundle_docs tr recs) = length recs)"
proof (induction recs arbitrary: t)
  case Nil
  then show ?case by (auto simp: io_return_def)
next
  case (Cons rec recs)
  show ?case
  proof (cases "locator_bundle tr rec")
    case (Inl e)
    with Cons.prems have "r = Inl e" "t' = t" by (auto simp: io_bind_def io_lift_def)
    with Inl show ?thesis by simp
  next
    case (Inr doc)
    let ?ev = "bulk_create_request doc"
    show ?thesis
    proof (cases "fst (create_bundle world doc t)")
      case (Inl e)
      with Cons.prems Inr have "r = Inl e" "t' = t @ map bulk_create_request (take 1 (bundle_docs tr (rec # recs)))"
        by (auto simp: io_bind_def io_lift_def create_bundle_eq split: prod.splits)
      then show ?thesis using Inr by (intro exI[of _ 1]) simp
    next
      case (Inr u)
      with Cons.prems \<open>locator_bundle tr rec = Inr doc\<close>
      have "locator_create_bundles world tr recs (t @ [?ev]) = (r, t')"
        by (auto simp: io_bind_def io_lift_def create_bundle_eq split: prod.splits)
      from Cons.IH[OF this] obtain k where k: "k \<le> length (bundle_docs tr recs)"
        "t' = (t @ [?ev]) @ map bulk_create_request (take k (bundle_docs tr recs))"
        "r = Inr () \<longrightarrow> k = length recs \<and> length (bundle_docs tr recs) = length recs"
        by blast
      then show ?thesis using \<open>locator_bundle tr rec = Inr doc\<close>
        by (intro exI[of _ "Suc k"]) auto
    qed
  qed
qed

lemma picker_cycle_events:
  assumes "picker_do_work_transfer_request world self tr t = Some (r, t')"
  shows "\<exists>rs. t' = t @ rs \<and> (\<forall>ev\<in>set rs. one_bundle_at_most ev)"
proof -
  let ?q = "picker_query (tr_source tr) (tr_path tr)"
  from assms obtain rq t1 where q: "query_file_catalog world ?q t = Some (rq, t1)"
    by (cases "query_file_catalog world ?q t")
       (auto simp: picker_do_work_transfer_request_def Let_def)
  from query_events[OF q] obtain rs1 where rs1: "t1 = t @ rs1" "\<forall>ev\<in>set rs1. is_page_request ev"
    by blast
  have base: "\<forall>ev\<in>set rs1. one_bundle_at_most ev" using rs1(2) by (simp add: one_bundle_at_most_simps)
  show ?thesis
  proof (cases rq)
    case (Inl e)
    with assms q have "t' = t1" by (simp add: picker_do_work_transfer_request_def Let_def)
    with rs1 base show ?thesis by blast
  next
    case (Inr files)
    show ?thesis
    proof (cases "files = []")
      case True
      with Inr q have "query_file_catalog world ?q t = Some (Inr [], t1)" by simp
      from picker_empty_discovery[OF this, of self] assms
      have "t' = t @ (rs1 @ [quarantine_request self tr
                ''File Catalog returned zero files for the TransferRequest'' (now world t1)])"
        by (simp add: rs1(1))
      moreover have "\<forall>ev\<in>set (rs1 @ [quarantine_request self tr
                ''File Catalog returned zero files for the TransferRequest'' (now world t1)]).
                one_bundle_at_most ev"
        using base by (simp add: one_bundle_at_most_simps)
      ultimately show ?thesis by blast
    next
      case False
      obtain rf t2 where f: "fetch_records world files [] t1 = (rf, t2)"
        by (cases "fetch_records world files [] t1")
      from fetch_records_shape[OF f] obtain k where k: "t2 = t1 @ map file_request (take k files)"
        by blast
      let ?rs2 = "rs1 @ map file_request (take k files)"
      have t2: "t2 = t @ ?rs2" by (simp add: k rs1(1))
      have base2: "\<forall>ev\<in>set ?rs2. one_bundle_at_most ev"
        using base by (auto simp: one_bundle_at_most_simps)
      show ?thesis
      proof (cases rf)
        case (Inl e)
        with assms q Inr False f have "t' = t2"
          by (simp add: picker_do_work_transfer_request_def Let_def io_bind_def)
        with t2 base2 show ?thesis by blast
      next
        case R: (Inr R)
        show ?thesis
        proof (cases "getitem (sites self) (tr_dest tr)")
          case (Inl e)
          with assms q Inr False f R have "t' = t2"
            by (simp add: picker_do_work_transfer_request_def Let_def io_bind_def io_lift_def)
          with t2 base2 show ?thesis by blast
        next
          case S: (Inr site_config)
          let ?specs = "to_constant_volume (map (\<lambda>r. (cr_file_size r, r)) R) (bundle_size site_config)"
          note run = picker_after_discovery[OF q[unfolded Inr] False f[unfolded R] S]
          show ?thesis
          proof (cases "find (\<lambda>spec. int (length spec) > max_file_count self) ?specs")
            case (Some spec)
            let ?p = "quarantine_request self tr
                  (''Bundle packing list contains '' @ str_int (int (length spec))
                     @ '' files; MAX_FILE_COUNT is configured at '' @ str_int (max_file_count self))
                  (now world t2)"
            from run Some assms have "t' = t @ (?rs2 @ [?p])"
              by (simp add: quarantine_transfer_request_eq t2)
            moreover have "\<forall>ev\<in>set (?rs2 @ [?p]). one_bundle_at_most ev"
              using base2 by (simp add: one_bundle_at_most_simps)
            ultimately show ?thesis by blast
          next
            case None
            with run assms have "picker_create_bundles world tr ?specs t2 = (r, t')" by simp
            from picker_create_bundles_shape[OF this] obtain j where
              j: "t' = t2 @ map (\<lambda>spec. bulk_create_request (picker_bundle tr spec)) (take j ?specs)"
              by blast
            let ?rs3 = "?rs2 @ map (\<lambda>spec. bulk_create_request (picker_bundle tr spec)) (take j ?specs)"
            have "t' = t @ ?rs3" by (simp add: j t2)
            moreover have "\<forall>ev\<in>set ?rs3. one_bundle_at_most ev"
              using base2 by (auto simp: one_bundle_at_most_simps)
            ultimately show ?thesis by blast
          qed
        qed
      qed
    qed
  qed
qed

lemma locator_after_discovery:
  assumes "query_file_catalog world (locator_query (tr_source tr) (tr_path tr)) t = Some (Inr files, t1)"
      and "files \<noteq> []"
      and "fetch_records world files [] t1 = (Inr R, t2)"
  shows "locator_do_work_transfer_request world self tr t =
     Some (io_bind (fetch_records world (get_unique_archives R (tr_source tr)) [])
             (\<lambda>bundle_records. locator_create_bundles world tr bundle_records) t2)"
  using assms
  by (simp add: locator_do_work_transfer_request_def Let_def io_bind_def)

lemma locator_cycle_events:
  assumes "locator_do_work_transfer_request world self tr t = Some (r, t')"
  shows "\<exists>rs. t' = t @ rs \<and> (\<forall>ev\<in>set rs. one_bundle_at_most ev)"
proof -
  let ?q = "locator_query (tr_source tr) (tr_path tr)"
  from assms obtain rq t1 where q: "query_file_catalog world ?q t = Some (rq, t1)"
    by (cases "query_file_catalog world ?q t")
       (auto simp: locator_do_work_transfer_request_def Let_def)
  from query_events[OF q] obtain rs1 where rs1: "t1 = t @ rs1" "\<forall>ev\<in>set rs1. is_page_request ev"
    by blast
  have base: "\<forall>ev\<in>set rs1. one_bundle_at_most ev" using rs1(2) by (simp add: one_bundle_at_most_simps)
  show ?thesis
  proof (cases rq)
    case (Inl e)
    with assms q have "t' = t1" by (simp add: locator_do_work_transfer_request_def Let_def)
    with rs1 base show ?thesis by blast
  next
    case (Inr files)
    show ?thesis
    proof (cases "files = []")
      case True
      with Inr q have "query_file_catalog world ?q t = Some (Inr [], t1)" by simp
      from locator_empty_discovery[OF this, of self] assms
      have "t' = t @ (rs1 @ [quarantine_request self tr
                ''File Catalog returned zero files for the TransferRequest'' (now world t1)])"
        by (simp add: rs1(1))
      moreover have "\<forall>ev\<in>set (rs1 @ [quarantine_request self tr
                ''File Catalog returned zero files for the TransferRequest'' (now world t1)]).
                one_bundle_at_most ev"
        using base by (simp add: one_bundle_at_most_simps)
      ultimately show ?thesis by blast
    next
      case False
      obtain rf t2 where f: "fetch_records world files [] t1 = (rf, t2)"
        by (cases "fetch_records world files [] t1")
      from fetch_records_shape[OF f] obtain k where k: "t2 = t1 @ map file_request (take k files)"
        by blast
      let ?rs2 = "rs1 @ map file_request (take k files)"
      have t2: "t2 = t @ ?rs2" by (simp add: k rs1(1))
      have base2: "\<forall>ev\<in>set ?rs2. one_bundle_at_most ev"
        using base by (auto simp: one_bundle_at_most_simps)
      show ?thesis
      proof (cases rf)
        case (Inl e)
        with assms q Inr False f have "t' = t2"
          by (simp add: locator_do_work_transfer_request_def Let_def io_bind_def)
        with t2 base2 show ?thesis by blast
      next
        case R: (Inr R)
        let ?uuids = "get_unique_archives R (tr_source tr)"
        note run = locator_after_discovery[OF q[unfolded Inr] False f[unfolded R], of self]
        obtain rb t3 where b: "fetch_records world ?uuids [] t2 = (rb, t3)"
          by (cases "fetch_records world ?uuids [] t2")
        from fetch_records_shape[OF b] obtain m where m: "t3 = t2 @ map file_request (take m ?uuids)"
          by blast
        let ?rs3 = "?rs2 @ map file_request (take m ?uuids)"
        have t3: "t3 = t @ ?rs3" by (simp add: m t2)
        have base3: "\<forall>ev\<in>set ?rs3. one_bundle_at_most ev"
          using base2 by (auto simp: one_bundle_at_most_simps)
        show ?thesis
        proof (cases rb)
          case (Inl e)
          with run assms b have "t' = t3" by (simp add: io_bind_def)
          with t3 base3 show ?thesis by blast
        next
          case (Inr BR)
          with run assms b have "locator_create_bundles world tr BR t3 = (r, t')"
            by (simp add: io_bind_def)
          from locator_create_bundles_shape[OF this] obtain j where
            j: "t' = t3 @ map bulk_create_request (take j (bundle_docs tr BR))"
            by blast
          let ?rs4 = "?rs3 @ map bulk_create_request (take j (bundle_docs tr BR))"
          have "t' = t @ ?rs4" by (simp add: j t3)
          moreover have "\<forall>ev\<in>set ?rs4. one_bundle_at_most ev"
            using base3 by (auto simp: one_bundle_at_most_simps)
          ultimately show ?thesis by blast
        qed
      qed
    qed
  qed
qed

lemma filter_bulk_create_requests:
  "filter is_bulk_create (map (\<lambda>x. bulk_create_request (f x)) xs) = map (\<lambda>x. bulk_create_request (f x)) xs"
  by (induction xs) (auto simp: bulk_create_request_def is_bulk_create_def)

lemma bulk_create_request_fun:
  "bulk_create_request =
     (\<lambda>doc. Request LTA ''POST'' ''/Bundles/actions/bulk_create'' []
              (Some (JObj [(''bundles'', JList [doc])])))"
  by (rule ext) (simp add: bulk_create_request_def)

lemma locator_fetched_cycle:
  assumes "query_file_catalog world q t = Some (Inr files, t1)"
      and "fetch_records world files [] t1 = (Inr R, t2)"
      and "fetch_records world uuids [] t2 = (Inr BR, t3)"
  shows "\<exists>rs. t3 = t @ rs \<and> filter is_bulk_create rs = [] \<and> emitted_bundles rs = []"
proof -
  from fetched_cycle[OF assms(1,2)] obtain rs where rs: "t2 = t @ rs"
    "filter is_bulk_create rs = []" "emitted_bundles rs = []"
    by blast
  from fetch_records_ok[OF assms(3)] have "t3 = t @ (rs @ map file_request uuids)"
    by (simp add: rs(1))
  moreover have "filter is_bulk_create (rs @ map file_request uuids) = []
      \<and> emitted_bundles (rs @ map file_request uuids) = []"
    using rs file_requests_only[of uuids] by (simp add: emitted_bundles_append)
  ultimately show ?thesis by blast
qed

text \<open>
  C10. Every POST to \<open>/Bundles/actions/bulk_create\<close> of a Picker or Locator cycle carries
  exactly one bundle in its \<open>bundles\<close> list, however the cycle ends. A Picker cycle that
  passes the gate and returns has sent one such request per bin, in the order of the bins;
  a Locator cycle that returns has sent one per bundle record, in the order of the records.
\<close>

theorem bulk_create_one_bundle_each:
  "(\<forall>r t'. picker_do_work_transfer_request world pself tr t = Some (r, t') \<longrightarrow>
      (\<forall>ev \<in> set (drop (length t) t'). is_bulk_create ev \<longrightarrow>
         (\<exists>doc. ev = Request LTA ''POST'' ''/Bundles/actions/bulk_create'' []
                        (Some (JObj [(''bundles'', JList [doc])])))))
   \<and> (\<forall>r t'. locator_do_work_transfer_request world lself tr t = Some (r, t') \<longrightarrow>
      (\<forall>ev \<in> set (drop (length t) t'). is_bulk_create ev \<longrightarrow>
         (\<exists>doc. ev = Request LTA ''POST'' ''/Bundles/actions/bulk_create'' []
                        (Some (JObj [(''bundles'', JList [doc])])))))
   \<and> (\<forall>files t1 R t2 site_config t'.
        query_file_catalog world (picker_query (tr_source tr) (tr_path tr)) t = Some (Inr files, t1)
        \<and> files \<noteq> []
        \<and> fetch_records world files [] t1 = (Inr R, t2)
        \<and> getitem (sites pself) (tr_dest tr) = Inr site_config
        \<and> (\<forall>spec \<in> set (to_constant_volume (map (\<lambda>r. (cr_file_size r, r)) R) (bundle_size site_config)).
              \<not> int (length spec) > max_file_count pself)
        \<and> picker_do_work_transfer_request world pself tr t = Some (Inr (), t') \<longrightarrow>
        filter is_bulk_create (drop (length t) t') =
          map (\<lambda>spec. Request LTA ''POST'' ''/Bundles/actions/bulk_create'' []
                          (Some (JObj [(''bundles'', JList [picker_bundle tr spec])])))
            (to_constant_volume (map (\<lambda>r. (cr_file_size r, r)) R) (bundle_size site_config)))
   \<and> (\<forall>files t1 R t2 bundle_records t3 t'.
        query_file_catalog world (locator_query (tr_source tr) (tr_path tr)) t = Some (Inr files, t1)
        \<and> files \<noteq> []
        \<and> fetch_records world files [] t1 = (Inr R, t2)
        \<and> fetch_records world (get_unique_archives R (tr_source tr)) [] t2 = (Inr bundle_records, t3)
        \<and> locator_do_work_transfer_request world lself tr t = Some (Inr (), t') \<longrightarrow>
        length (bundle_docs tr bundle_records) = length bundle_records
        \<and> filter is_bulk_create (drop (length t) t') =
            map (\<lambda>doc. Request LTA ''POST'' ''/Bundles/actions/bulk_create'' []
                          (Some (JObj [(''bundles'', JList [doc])])))
              (bundle_docs tr bundle_records))"
proof (intro conjI allI impI)
  fix r t'
  assume "picker_do_work_transfer_request world pself tr t = Some (r, t')"
  from picker_cycle_events[OF this] obtain rs where "t' = t @ rs" "\<forall>ev\<in>set rs. one_bundle_at_most ev"
    by blast
  then show "\<forall>ev \<in> set (drop (length t) t'). is_bulk_create ev \<longrightarrow>
         (\<exists>doc. ev = Request LTA ''POST'' ''/Bundles/actions/bulk_create'' []
                        (Some (JObj [(''bundles'', JList [doc])])))"
    by (simp add: one_bundle_at_most_iff)
next
  fix r t'
  assume "locator_do_work_transfer_request world lself tr t = Some (r, t')"
  from locator_cycle_events[OF this] obtain rs where "t' = t @ rs" "\<forall>ev\<in>set rs. one_bundle_at_most ev"
    by blast
  then show "\<forall>ev \<in> set (drop (length t) t'). is_bulk_create ev \<longrightarrow>
         (\<exists>doc. ev = Request LTA ''POST'' ''/Bundles/actions/bulk_create'' []
                        (Some (JObj [(''bundles'', JList [doc])])))"
    by (simp add: one_bundle_at_most_iff)
next
  fix files t1 and R :: "catalog_record list" and t2 and site_config :: site and t'
  let ?specs = "to_constant_volume (map (\<lambda>r. (cr_file_size r, r)) R) (bundle_size site_config)"
  assume a: "query_file_catalog world (picker_query (tr_source tr) (tr_path tr)) t = Some (Inr files, t1)
        \<and> files \<noteq> []
        \<and> fetch_records world files [] t1 = (Inr R, t2)
        \<and> getitem (sites pself) (tr_dest tr) = Inr site_config
        \<and> (\<forall>spec \<in> set ?specs. \<not> int (length spec) > max_file_count pself)
        \<and> picker_do_work_transfer_request world pself tr t = Some (Inr (), t')"
  then have q: "query_file_catalog world (picker_query (tr_source tr) (tr_path tr)) t = Some (Inr files, t1)"
    and ne: "files \<noteq> []" and f: "fetch_records world files [] t1 = (Inr R, t2)"
    and s: "getitem (sites pself) (tr_dest tr) = Inr site_config"
    and gate: "\<forall>spec \<in> set ?specs. \<not> int (length spec) > max_file_count pself"
    and ok: "picker_do_work_transfer_request world pself tr t = Some (Inr (), t')"
    by simp_all
  from ok have "picker_create_bundles world tr ?specs t2 = (Inr (), t')"
    by (simp add: picker_after_discovery[OF q ne f s] gate_passes[OF gate])
  note t' = picker_create_bundles_ok[OF this]
  from fetched_cycle[OF q f] obtain rs where rs: "t2 = t @ rs" "filter is_bulk_create rs = []"
    by blast
  show "filter is_bulk_create (drop (length t) t') =
          map (\<lambda>spec. Request LTA ''POST'' ''/Bundles/actions/bulk_create'' []
                          (Some (JObj [(''bundles'', JList [picker_bundle tr spec])]))) ?specs"
    using filter_bulk_create_requests[of "picker_bundle tr" ?specs]
    by (simp add: t' rs bulk_create_request_def)
next
  fix files t1 R t2 bundle_records t3 t'
  assume a: "query_file_catalog world (locator_query (tr_source tr) (tr_path tr)) t = Some (Inr files, t1)
        \<and> files \<noteq> []
        \<and> fetch_records world files [] t1 = (Inr R, t2)
        \<and> fetch_records world (get_unique_archives R (tr_source tr)) [] t2 = (Inr bundle_records, t3)
        \<and> locator_do_work_transfer_request world lself tr t = Some (Inr (), t')"
  then have q: "query_file_catalog world (locator_query (tr_source tr) (tr_path tr)) t = Some (Inr files, t1)"
    and ne: "files \<noteq> []" and f: "fetch_records world files [] t1 = (Inr R, t2)"
    and b: "fetch_records world (get_unique_archives R (tr_source tr)) [] t2 = (Inr bundle_records, t3)"
    and ok: "locator_do_work_transfer_request world lself tr t = Some (Inr (), t')"
    by simp_all
  from ok have c: "locator_create_bundles world tr bundle_records t3 = (Inr (), t')"
    by (simp add: locator_after_discovery[OF q ne f] io_bind_def b)
  from locator_create_bundles_shape[OF c]
  have len: "length (bundle_docs tr bundle_records) = length bundle_records"
    and t': "t' = t3 @ map bulk_create_request (bundle_docs tr bundle_records)"
    by auto
  from locator_fetched_cycle[OF q f b] obtain rs where rs: "t3 = t @ rs" "filter is_bulk_create rs = []"
    by blast
  show "length (bundle_docs tr bundle_records) = length bundle_records" by (rule len)
  show "filter is_bulk_create (drop (length t) t') =
            map (\<lambda>doc. Request LTA ''POST'' ''/Bundles/actions/bulk_create'' []
                          (Some (JObj [(''bundles'', JList [doc])])))
              (bundle_docs tr bundle_records)"
    using filter_bulk_create_requests[of "\<lambda>doc. doc" "bundle_docs tr bundle_records"]
    by (simp add: t' rs bulk_create_request_fun)
qed

lemma locator_create_bundles_total:
  "\<forall>h. \<exists>u us. lta_bulk_create world h = Inr (u # us) \<Longrightarrow>
   length (bundle_docs tr recs) = length recs \<Longrightarrow>
     locator_create_bundles world tr recs t =
       (Inr (), t @ map bulk_create_request (bundle_docs tr recs))"
proof (induction recs arbitrary: t)
  case Nil
  show ?case by (simp add: io_return_def)
next
  case (Cons rec recs)
  from Cons.prems(2) obtain doc where doc: "locator_bundle tr rec = Inr doc"
    by (cases "locator_bundle tr rec") auto
  with Cons.prems(2) have len: "length (bundle_docs tr recs) = length recs" by simp
  from Cons.prems(1) obtain u us where
    "lta_bulk_create world (t @ [bulk_create_request doc]) = Inr (u # us)"
    by blast
  then show ?case
    by (simp add: io_bind_def io_lift_def doc create_bundle_eq Cons.IH[OF Cons.prems(1) len])
qed

lemma example_answered: "\<forall>h. \<exists>u us. lta_bulk_create example_world h = Inr (u # us)"
  by (simp add: example_world_def)

lemma example_picker_run:
  "picker_do_work_transfer_request example_world example_picker example_request [] =
     Some (Inr (),
       [first_page_request (picker_query ''WIPAC'' ''/data/exp'') 0,
        file_request ''f1'', file_request ''f2'', file_request ''f3'',
        bulk_create_request (picker_bundle example_request
           [(500, example_record ''f3''), (400, example_record ''f2'')]),
        bulk_create_request (picker_bundle example_request [(300, example_record ''f1'')])])"
proof -
  let ?R = "[example_record ''f1'', example_record ''f2'', example_record ''f3'']"
  let ?t1 = "[first_page_request (picker_query ''WIPAC'' ''/data/exp'') 0]"
  have c: "tr_source example_request = ''WIPAC''" "tr_path example_request = ''/data/exp''"
          "tr_dest example_request = ''NERSC''" "max_file_count example_picker = 25000"
    by (simp_all add: example_request_def example_picker_def)
  have q: "query_file_catalog example_world
             (picker_query (tr_source example_request) (tr_path example_request)) []
           = Some (Inr [''f1'', ''f2'', ''f3''], ?t1)"
    by (simp add: c example_catalog_query)
  have ne: "[''f1'', ''f2'', ''f3''] \<noteq> []" by simp
  have f: "fetch_records example_world [''f1'', ''f2'', ''f3''] [] ?t1
             = (Inr ?R, ?t1 @ [file_request ''f1'', file_request ''f2'', file_request ''f3''])"
    by (rule example_fetch)
  have s: "getitem (sites example_picker) (tr_dest example_request) = Inr \<lparr>bundle_size = 1000\<rparr>"
    by (simp add: getitem_def example_picker_def c)
  show ?thesis
    by (simp add: picker_after_discovery[OF q ne f s] example_packing c
          picker_create_bundles_total[OF example_answered] del: picker_create_bundles.simps)
qed

lemma example_unique_archives:
  "get_unique_archives [example_record ''f1'', example_record ''f2'', example_record ''f3''] ''NERSC''
     = [''DEADBEEF1234'', ''CAFEBABE5678'']"
  by (simp add: get_unique_archives_def example_record_def split_first_def os_path_basename_def)

lemma example_fetch_bundles:
  "fetch_records example_world [''DEADBEEF1234'', ''CAFEBABE5678''] [] t =
     (Inr [example_record ''DEADBEEF1234'', example_record ''CAFEBABE5678''],
      t @ [file_request ''DEADBEEF1234'', file_request ''CAFEBABE5678''])"
  by (simp add: io_bind_def request_def io_return_def example_world_def file_request_def)

lemma bundle_docs_complete:
  "\<forall>r \<in> set recs. \<exists>doc. locator_bundle tr r = Inr doc \<Longrightarrow>
     length (bundle_docs tr recs) = length recs"
  by (induction recs) auto

lemma example_lta:
  "cr_lta (example_record u) =
     Some [(''bundle_path'', JStr (''/a/b/'' @ u @ ''.zip'')),
           (''checksum'', JObj [(''sha512'', JStr ''c0ffee'')])]"
  by (simp add: example_record_def)

lemma example_locator_bundle: "\<exists>doc. locator_bundle tr (example_record u) = Inr doc"
  by (simp add: locator_bundle_def example_lta getitem_def)

lemma example_bundle_docs:
  "length (bundle_docs example_restore [example_record ''DEADBEEF1234'', example_record ''CAFEBABE5678'']) = 2"
proof -
  have "\<forall>r \<in> set [example_record ''DEADBEEF1234'', example_record ''CAFEBABE5678''].
          \<exists>doc. locator_bundle example_restore r = Inr doc"
    using example_locator_bundle by simp
  from bundle_docs_complete[OF this] show ?thesis by (simp del: bundle_docs.simps)
qed

lemma example_locator_run:
  "locator_do_work_transfer_request example_world example_locator example_restore [] =
     Some (Inr (),
       [first_page_request (locator_query ''NERSC'' ''/data/exp'') 0,
        file_request ''f1'', file_request ''f2'', file_request ''f3'',
        file_request ''DEADBEEF1234'', file_request ''CAFEBABE5678'']
       @ map bulk_create_request
           (bundle_docs example_restore
              [example_record ''DEADBEEF1234'', example_record ''CAFEBABE5678'']))"
proof -
  let ?R = "[example_record ''f1'', example_record ''f2'', example_record ''f3'']"
  let ?t1 = "[first_page_request (locator_query ''NERSC'' ''/data/exp'') 0]"
  have c: "tr_source example_restore = ''NERSC''" "tr_path example_restore = ''/data/exp''"
    by (simp_all add: example_restore_def)
  have q: "query_file_catalog example_world
             (locator_query (tr_source example_restore) (tr_path example_restore)) []
           = Some (Inr [''f1'', ''f2'', ''f3''], ?t1)"
    by (simp add: c example_catalog_query)
  have ne: "[''f1'', ''f2'', ''f3''] \<noteq> []" by simp
  have f: "fetch_records example_world [''f1'', ''f2'', ''f3''] [] ?t1
             = (Inr ?R, ?t1 @ [file_request ''f1'', file_request ''f2'', file_request ''f3''])"
    by (rule example_fetch)
  have len: "length (bundle_docs example_restore [example_record ''DEADBEEF1234'', example_record ''CAFEBABE5678''])
               = length [example_record ''DEADBEEF1234'', example_record ''CAFEBABE5678'']"
    by (simp add: example_bundle_docs del: bundle_docs.simps)
  show ?thesis
    by (simp add: locator_after_discovery[OF q ne f] c example_unique_archives io_bind_def
          example_fetch_bundles locator_create_bundles_total[OF example_answered len]
          del: locator_create_bundles.simps fetch_records.simps bundle_docs.simps)
qed

theorem bulk_create_one_bundle_each_witness:
  "(\<exists>t'. picker_do_work_transfer_request example_world example_picker example_request [] = Some (Inr (), t')
      \<and> filter is_bulk_create t' =
          [Request LTA ''POST'' ''/Bundles/actions/bulk_create'' []
             (Some (JObj [(''bundles'', JList [picker_bundle example_request
                  [(500, example_record ''f3''), (400, example_record ''f2'')]])])),
           Request LTA ''POST'' ''/Bundles/actions/bulk_create'' []
             (Some (JObj [(''bundles'', JList [picker_bundle example_request
                  [(300, example_record ''f1'')]])]))])
   \<and> (\<exists>t'. locator_do_work_transfer_request example_world example_locator example_restore [] = Some (Inr (), t')
      \<and> length (filter is_bulk_create t') = 2
      \<and> (\<forall>ev \<in> set t'. is_bulk_create ev \<longrightarrow>
           (\<exists>doc. ev = Request LTA ''POST'' ''/Bundles/actions/bulk_create'' []
                          (Some (JObj [(''bundles'', JList [doc])])))))"
proof -
  let ?R = "[example_record ''f1'', example_record ''f2'', example_record ''f3'']"
  let ?BR = "[example_record ''DEADBEEF1234'', example_record ''CAFEBABE5678'']"
  let ?p1 = "[first_page_request (picker_query ''WIPAC'' ''/data/exp'') 0]"
  let ?l1 = "[first_page_request (locator_query ''NERSC'' ''/data/exp'') 0]"
  let ?fs = "[file_request ''f1'', file_request ''f2'', file_request ''f3'']"
  have c: "tr_source example_request = ''WIPAC''" "tr_path example_request = ''/data/exp''"
          "tr_dest example_request = ''NERSC''" "max_file_count example_picker = 25000"
          "tr_source example_restore = ''NERSC''" "tr_path example_restore = ''/data/exp''"
    by (simp_all add: example_request_def example_picker_def example_restore_def)
  have pq: "query_file_catalog example_world
             (picker_query (tr_source example_request) (tr_path example_request)) []
           = Some (Inr [''f1'', ''f2'', ''f3''], ?p1)"
    by (simp add: c example_catalog_query)
  have lq: "query_file_catalog example_world
             (locator_query (tr_source example_restore) (tr_path example_restore)) []
           = Some (Inr [''f1'', ''f2'', ''f3''], ?l1)"
    by (simp add: c example_catalog_query)
  have ne: "[''f1'', ''f2'', ''f3''] \<noteq> []" by simp
  have pf: "fetch_records example_world [''f1'', ''f2'', ''f3''] [] ?p1 = (Inr ?R, ?p1 @ ?fs)"
    by (rule example_fetch)
  have lf: "fetch_records example_world [''f1'', ''f2'', ''f3''] [] ?l1 = (Inr ?R, ?l1 @ ?fs)"
    by (rule example_fetch)
  have lb: "fetch_records example_world (get_unique_archives ?R (tr_source example_restore)) [] (?l1 @ ?fs)
              = (Inr ?BR, (?l1 @ ?fs) @ [file_request ''DEADBEEF1234'', file_request ''CAFEBABE5678''])"
    by (simp only: c example_unique_archives example_fetch_bundles)
  have s: "getitem (sites example_picker) (tr_dest example_request) = Inr \<lparr>bundle_size = 1000\<rparr>"
    by (simp add: getitem_def example_picker_def c)
  have gate: "\<forall>spec \<in> set (to_constant_volume (map (\<lambda>r. (cr_file_size r, r)) ?R)
                             (bundle_size \<lparr>bundle_size = 1000\<rparr>)).
               \<not> int (length spec) > max_file_count example_picker"
    by (simp add: example_packing c)
  note all = bulk_create_one_bundle_each[of example_world example_picker example_request "[]" example_locator]
  note alr = bulk_create_one_bundle_each[of example_world example_picker example_restore "[]" example_locator]
  from all pq ne pf s gate example_picker_run
  have "filter is_bulk_create (drop (length ([]::trace))
          ([first_page_request (picker_query ''WIPAC'' ''/data/exp'') 0,
            file_request ''f1'', file_request ''f2'', file_request ''f3'',
            bulk_create_request (picker_bundle example_request
               [(500, example_record ''f3''), (400, example_record ''f2'')]),
            bulk_create_request (picker_bundle example_request [(300, example_record ''f1'')])])) =
          map (\<lambda>spec. Request LTA ''POST'' ''/Bundles/actions/bulk_create'' []
                          (Some (JObj [(''bundles'', JList [picker_bundle example_request spec])])))
            (to_constant_volume (map (\<lambda>r. (cr_file_size r, r)) ?R) (bundle_size \<lparr>bundle_size = 1000\<rparr>))"
    by blast
  then have P: "\<exists>t'. picker_do_work_transfer_request example_world example_picker example_request [] = Some (Inr (), t')
      \<and> filter is_bulk_create t' =
          [Request LTA ''POST'' ''/Bundles/actions/bulk_create'' []
             (Some (JObj [(''bundles'', JList [picker_bundle example_request
                  [(500, example_record ''f3''), (400, example_record ''f2'')]])])),
           Request LTA ''POST'' ''/Bundles/actions/bulk_create'' []
             (Some (JObj [(''bundles'', JList [picker_bundle example_request
                  [(300, example_record ''f1'')]])]))]"
    using example_picker_run by (simp add: example_packing)
  let ?lt = "[first_page_request (locator_query ''NERSC'' ''/data/exp'') 0,
        file_request ''f1'', file_request ''f2'', file_request ''f3'',
        file_request ''DEADBEEF1234'', file_request ''CAFEBABE5678'']
       @ map bulk_create_request (bundle_docs example_restore ?BR)"
  from alr lq ne lf lb example_locator_run
  have L1: "filter is_bulk_create (drop (length ([]::trace)) ?lt) =
            map (\<lambda>doc. Request LTA ''POST'' ''/Bundles/actions/bulk_create'' []
                          (Some (JObj [(''bundles'', JList [doc])])))
              (bundle_docs example_restore ?BR)"
    by blast
  from alr example_locator_run
  have L2: "\<forall>ev \<in> set (drop (length ([]::trace)) ?lt). is_bulk_create ev \<longrightarrow>
         (\<exists>doc. ev = Request LTA ''POST'' ''/Bundles/actions/bulk_create'' []
                        (Some (JObj [(''bundles'', JList [doc])])))"
    by blast
  have L: "\<exists>t'. locator_do_work_transfer_request example_world example_locator example_restore [] = Some (Inr (), t')
      \<and> length (filter is_bulk_create t') = 2
      \<and> (\<forall>ev \<in> set t'. is_bulk_create ev \<longrightarrow>
           (\<exists>doc. ev = Request LTA ''POST'' ''/Bundles/actions/bulk_create'' []
                          (Some (JObj [(''bundles'', JList [doc])]))))"
  proof (intro exI conjI)
    show "locator_do_work_transfer_request example_world example_locator example_restore [] = Some (Inr (), ?lt)"
      by (rule example_locator_run)
    show "length (filter is_bulk_create ?lt) = 2"
      using L1 by (simp add: example_bundle_docs del: bundle_docs.simps)
    show "\<forall>ev \<in> set ?lt. is_bulk_create ev \<longrightarrow>
           (\<exists>doc. ev = Request LTA ''POST'' ''/Bundles/actions/bulk_create'' []
                          (Some (JObj [(''bundles'', JList [doc])])))"
      using L2 by (simp del: bundle_docs.simps)
  qed
  from P L show ?thesis by blast
qed

subsection \<open>Locator: the uuid list\<close>






















subsection \<open>Quarantine\<close>

lemma strip_prefix_append: "strip_prefix p (p @ s) = Some s"
  by (induction p) auto

lemma takeWhile_claimant:
  "CHR '' '' \<notin> set who \<Longrightarrow> takeWhile (\<lambda>c. c \<noteq> CHR '' '') (who @ CHR '' '' # rest) = who"
  by (induction who) auto

lemma dropWhile_claimant:
  "CHR '' '' \<notin> set who \<Longrightarrow> dropWhile (\<lambda>c. c \<noteq> CHR '' '') (who @ CHR '' '' # rest) = CHR '' '' # rest"
  by (induction who) auto

lemma matches_reason:
  assumes "who \<noteq> []" "CHR '' '' \<notin> set who" "cause \<noteq> []" "hd cause \<noteq> CHR 0x0A"
  shows "matches_reason_pattern (''BY:'' @ who @ '' REASON:'' @ cause)"
proof -
  note tw = takeWhile_claimant[OF assms(2), of "''REASON:'' @ cause", simplified]
  note dw = dropWhile_claimant[OF assms(2), of "''REASON:'' @ cause", simplified]
  show ?thesis
    unfolding matches_reason_pattern_def by (simp add: tw dw assms)
qed

text \<open>
  C8, as amended. The quarantine primitives of Picker and Locator
  (\<open>quarantine_transfer_request\<close>) and of the RucioStager (\<open>quarantine_bundle\<close>) send one
  PATCH whose body sets \<open>status\<close> to \<open>quarantined\<close>, \<open>reason\<close> to \<open>BY:\<close>, the claimant
  \<open>name-instance_uuid\<close>, \<open> REASON:\<close> and the cause, and \<open>work_priority_timestamp\<close> to the
  current time; they return normally whether or not the PATCH raises. The reason matches
  \<open>^BY:[^ ]+ REASON:.+\<close> when the claimant contains no space and the cause is not empty and
  does not begin with a newline.
\<close>

theorem quarantine_patch_and_reason:
  "quarantine_transfer_request world self tr cause t =
     (Inr (), t @ [Request LTA ''PATCH'' (''/TransferRequests/'' @ tr_uuid tr) []
                     (Some (JObj [(''status'', JStr ''quarantined''),
                                  (''reason'', JStr (''BY:'' @ name self @ ''-'' @ instance_uuid self
                                                       @ '' REASON:'' @ cause)),
                                  (''work_priority_timestamp'', JStr (now world t))]))])
   \<and> quarantine_bundle world stager b cause t =
     (Inr (), t @ [Request LTA ''PATCH'' (''/Bundles/'' @ b_uuid b) []
                     (Some (JObj [(''status'', JStr ''quarantined''),
                                  (''reason'', JStr (''BY:'' @ name stager @ ''-'' @ instance_uuid stager
                                                       @ '' REASON:'' @ cause)),
                                  (''work_priority_timestamp'', JStr (now world t))]))])
   \<and> (CHR '' '' \<notin> set (name self @ ''-'' @ instance_uuid self)
        \<and> cause \<noteq> [] \<and> hd cause \<noteq> CHR 0x0A \<longrightarrow>
      matches_reason_pattern (''BY:'' @ name self @ ''-'' @ instance_uuid self @ '' REASON:'' @ cause))"
proof (intro conjI impI)
  show "quarantine_transfer_request world self tr cause t =
     (Inr (), t @ [Request LTA ''PATCH'' (''/TransferRequests/'' @ tr_uuid tr) []
                     (Some (JObj [(''status'', JStr ''quarantined''),
                                  (''reason'', JStr (''BY:'' @ name self @ ''-'' @ instance_uuid self
                                                       @ '' REASON:'' @ cause)),
                                  (''work_priority_timestamp'', JStr (now world t))]))])"
    by (simp add: quarantine_transfer_request_eq quarantine_request_def)
  show "quarantine_bundle world stager b cause t =
     (Inr (), t @ [Request LTA ''PATCH'' (''/Bundles/'' @ b_uuid b) []
                     (Some (JObj [(''status'', JStr ''quarantined''),
                                  (''reason'', JStr (''BY:'' @ name stager @ ''-'' @ instance_uuid stager
                                                       @ '' REASON:'' @ cause)),
                                  (''work_priority_timestamp'', JStr (now world t))]))])"
    by (simp add: quarantine_bundle_eq quarantine_body_def bundle_url_def)
next
  assume a: "CHR '' '' \<notin> set (name self @ ''-'' @ instance_uuid self)
        \<and> cause \<noteq> [] \<and> hd cause \<noteq> CHR 0x0A"
  have "matches_reason_pattern (''BY:'' @ (name self @ ''-'' @ instance_uuid self) @ '' REASON:'' @ cause)"
    using a by (intro matches_reason) simp_all
  then show "matches_reason_pattern (''BY:'' @ name self @ ''-'' @ instance_uuid self @ '' REASON:'' @ cause)"
    by simp
qed

theorem quarantine_patch_and_reason_witness:
  "matches_reason_pattern
     ''BY:picker-9c1b REASON:File Catalog returned zero files for the TransferRequest''"
proof -
  have "CHR '' '' \<notin> set (name example_picker @ ''-'' @ instance_uuid example_picker)
        \<and> ''File Catalog returned zero files for the TransferRequest'' \<noteq> []
        \<and> hd ''File Catalog returned zero files for the TransferRequest'' \<noteq> CHR 0x0A"
    by (simp add: example_picker_def)
  with quarantine_patch_and_reason[of example_world example_picker example_request
         "''File Catalog returned zero files for the TransferRequest''" "[]" example_stager example_bundle]
  have "matches_reason_pattern (''BY:'' @ name example_picker @ ''-'' @ instance_uuid example_picker
          @ '' REASON:'' @ ''File Catalog returned zero files for the TransferRequest'')"
    by blast
  then show ?thesis by (simp add: example_picker_def)
qed

text \<open>
  C8 as stated fails: an exception without a message makes the Picker quarantine with an
  empty cause, and the reason then ends at \<open>REASON:\<close>, where the pattern asks for one more
  character.
\<close>

theorem quarantine_reason_counterexample:
  "picker_do_work_claim silent_failure_world example_picker [] =
     Some (Inr False,
       [picker_pop example_picker,
        first_page_request (picker_query ''WIPAC'' ''/data/exp'') 0,
        Request LTA ''PATCH'' ''/TransferRequests/tr1'' []
          (Some (JObj [(''status'', JStr ''quarantined''),
                       (''reason'', JStr ''BY:picker-9c1b REASON:''),
                       (''work_priority_timestamp'', JStr ''2019-07-25T12:00:00'')]))])
   \<and> \<not> matches_reason_pattern ''BY:picker-9c1b REASON:''"
proof -
  have q: "query_file_catalog silent_failure_world q t = Some (Inl (Failure ''''), t @ [first_page_request q 0])"
    for q t
    by (simp add: query_file_catalog_def request_def silent_failure_world_def)
  have w: "lta_pop_transfer_request silent_failure_world t = Inr (Some example_request)"
          "now silent_failure_world t = ''2019-07-25T12:00:00''" for t
    by (simp_all add: silent_failure_world_def example_world_def)
  have c: "tr_source example_request = ''WIPAC''" "tr_path example_request = ''/data/exp''"
          "tr_uuid example_request = ''tr1''"
          "name example_picker = ''picker''" "instance_uuid example_picker = ''9c1b''"
    by (simp_all add: example_request_def example_picker_def)
  have run: "picker_do_work_transfer_request silent_failure_world example_picker example_request t =
          Some (Inl (Failure ''''), t @ [first_page_request (picker_query ''WIPAC'' ''/data/exp'') 0])" for t
    by (simp add: picker_do_work_transfer_request_def Let_def q c)
  have 1: "picker_do_work_claim silent_failure_world example_picker [] =
     Some (Inr False,
       [picker_pop example_picker,
        first_page_request (picker_query ''WIPAC'' ''/data/exp'') 0,
        Request LTA ''PATCH'' ''/TransferRequests/tr1'' []
          (Some (JObj [(''status'', JStr ''quarantined''),
                       (''reason'', JStr ''BY:picker-9c1b REASON:''),
                       (''work_priority_timestamp'', JStr ''2019-07-25T12:00:00'')]))])"
    by (simp add: picker_do_work_claim_def request_def w run quarantine_transfer_request_eq
          quarantine_request_def c)
  have 2: "\<not> matches_reason_pattern ''BY:picker-9c1b REASON:''"
    by (simp add: matches_reason_pattern_def)
  from 1 2 show ?thesis by simp
qed

end
